theory Spec2Isabelle
  imports Complex_Main "HOL-Library.Log_Nat" "HOL-Library.Code_Target_Numeral"
begin

section \<open>The legacy dialog panel of the storm engine\<close>

text \<open>
  A shallow embedding of \<^verbatim>\<open>src/libs/dialog/src/legacy_dialog.cpp\<close>.

  Conventions of the embedding.
  \<^item> The component's member variables and the parts of the engine it reads and writes
    (attribute tree, sound service, render-service buffers, global time scale, events)
    are the fields of one record \<open>LegacyDialog\<close>; every member function takes the record
    and returns the updated one.
  \<^item> What the engine hands to the component during a call (viewport, screen size, font
    metrics, control states, frame time, the text wrapper of \<^verbatim>\<open>dialog.cpp\<close>, the
    script's reaction to an event) is the read-only record \<open>Host\<close>.
  \<^item> A finite \<^verbatim>\<open>float\<close> or \<^verbatim>\<open>double\<close> value is the real number it denotes. The
    conversions to \<^verbatim>\<open>float\<close>, the quotients, the comparisons with the epsilon
    \<^verbatim>\<open>1e-3f\<close>, the conversions to \<^verbatim>\<open>int32_t\<close> and the offsets computed by
    \<open>UpdateScreenSize\<close>, \<open>UpdateLinks\<close>, \<open>UpdateDialogText\<close> and \<open>UpdateBackBuffers\<close> are
    rounded as IEEE 754 rounds them (\<open>float32\<close>, \<open>double64\<close>: to nearest, ties to even).
    The differences that move a sprite up (\<open>move_up\<close>) are rounded in the same way. The
    products that place the vertices of a sprite (\<open>createSpriteMesh\<close>) and the quotient of
    \<open>Unfade\<close> are taken as exact.
  \<^item> The screen size is positive by its type (\<open>posnat\<close>), so the scale of the viewport is
    always a finite number.
  \<^item> \<^verbatim>\<open>int32_t\<close> and \<^verbatim>\<open>size_t\<close> values are integers; the conversions between
    them that the source performs are written out (\<open>to_size_t\<close>, \<open>to_int32\<close>).
  \<^item> The class declaration (\<^verbatim>\<open>legacy_dialog.hpp\<close>) is not part of the sources at hand;
    the member types are the ones the function bodies imply, and the values the members
    have before \<open>Init\<close> are a parameter (the state \<open>Init\<close> is applied to).
  \<^item> Members are named as in the source, without the trailing underscore, which a name
    cannot end with here (\<open>selectedLink\<close> is \<^verbatim>\<open>selectedLink_\<close>).
\<close>

subsection \<open>Machine integers\<close>

definition to_size_t :: "int \<Rightarrow> int" where
  \<comment> \<open>conversion of a signed value to the 64-bit unsigned \<^verbatim>\<open>size_t\<close>\<close>
  "to_size_t i = i mod 2 ^ 64"

definition to_uint32 :: "int \<Rightarrow> int" where
  "to_uint32 i = i mod 2 ^ 32"

definition to_uint16 :: "nat \<Rightarrow> nat" where
  "to_uint16 n = n mod 2 ^ 16"

definition to_int32 :: "int \<Rightarrow> int" where
  \<comment> \<open>two's complement value of the low 32 bits\<close>
  "to_int32 i = (i + 2 ^ 31) mod 2 ^ 32 - 2 ^ 31"

definition trunc_int32 :: "real \<Rightarrow> int" where
  \<comment> \<open>\<^verbatim>\<open>static_cast<int32_t>\<close> of a floating-point value: truncation towards zero. A
      value outside the range of \<^verbatim>\<open>int32_t\<close> has no defined conversion in C++; the
      conversion instruction of x86-64, the engine's platform, gives \<open>- 2^31\<close> then.\<close>
  "trunc_int32 x =
     (let t = (if 0 \<le> x then \<lfloor>x\<rfloor> else \<lceil>x\<rceil>)
      in if - (2 ^ 31) \<le> t \<and> t < 2 ^ 31 then t else - (2 ^ 31))"

subsection \<open>Floating-point numbers\<close>

text \<open>
  Rounding to the nearest number of a binary format with \<open>t\<close> fraction bits and least
  exponent \<open>emin\<close>, ties to the even significand: for \<open>x\<close> with
  \<open>2^e \<le> |x| < 2^(e+1)\<close> the representable numbers around \<open>x\<close> are the multiples of
  \<open>2^(e - t)\<close> (of \<open>2^(emin - t)\<close> below the normal range); \<open>e\<close> is \<open>\<lfloor>log 2 |x|\<rfloor>\<close>
  (\<open>float_exponent_log\<close>). Overflow to an infinity would
  need a magnitude of \<open>2^128\<close>, which no quotient or product of the 32-bit and 64-bit integers
  of this component reaches.
\<close>

definition pow2 :: "int \<Rightarrow> real" where
  "pow2 k = (if 0 \<le> k then 2 ^ nat k else 1 / 2 ^ nat (- k))"

definition round_to_even :: "real \<Rightarrow> int" where
  "round_to_even x =
     (let n = \<lfloor>x\<rfloor>; d = x - of_int n
      in if d < 1 / 2 then n else if 1 / 2 < d then n + 1 else if even n then n else n + 1)"

definition float_exponent :: "real \<Rightarrow> int" where
  \<comment> \<open>the \<open>e\<close> with \<open>2^e \<le> |x| < 2^(e+1)\<close>, from the number of binary digits of the whole
      part of \<open>|x|\<close> or of \<open>1 / |x|\<close>\<close>
  "float_exponent x =
     (if 1 \<le> \<bar>x\<bar> then int (floorlog 2 (nat \<lfloor>\<bar>x\<bar>\<rfloor>)) - 1
      else - int (floorlog 2 (nat \<lceil>1 / \<bar>x\<bar>\<rceil> - 1)))"

definition float_round :: "int \<Rightarrow> int \<Rightarrow> real \<Rightarrow> real" where
  "float_round t emin x =
     (if x = 0 then 0
      else (let e = max (float_exponent x) emin
            in of_int (round_to_even (x / pow2 (e - t))) * pow2 (e - t)))"

definition float32 :: "real \<Rightarrow> real" where
  \<comment> \<open>the \<^verbatim>\<open>float\<close> nearest to a real number\<close>
  "float32 x = float_round 23 (- 126) x"

definition double64 :: "real \<Rightarrow> real" where
  \<comment> \<open>the \<^verbatim>\<open>double\<close> nearest to a real number\<close>
  "double64 x = float_round 52 (- 1022) x"

definition EPSILON :: real where
  \<comment> \<open>the literal \<^verbatim>\<open>1e-3f\<close>\<close>
  "EPSILON = float32 (1 / 1000)"

subsection \<open>Data\<close>

record FRECT =
  x1 :: real  \<comment> \<open>left\<close>
  y1 :: real  \<comment> \<open>top\<close>
  x2 :: real  \<comment> \<open>right\<close>
  y2 :: real  \<comment> \<open>bottom\<close>

record SpriteInfo =
  position :: FRECT
  uv :: FRECT

record XI_TEX_VERTEX =
  pos_x :: real
  pos_y :: real
  pos_z :: real
  rhw :: real
  color :: nat
  tex_u :: real
  tex_v :: real

record LinkEntry =
  line_text :: string
  lineIndex :: int

datatype SoundState = SOUND_STOPPED | SOUND_STARTING | SOUND_PLAYING

datatype Sound = TICK_SOUND | Speech string

text \<open>
  Modelled from the spec: the attribute tree of the entity (class \<^verbatim>\<open>ATTRIBUTES\<close> of the
  engine core, not among the sources). The spec lists what the component reads from it: a
  \<open>Text\<close> attribute, a \<open>Links\<close> sub-list whose entries carry a value and a navigation target
  (\<open>go\<close>), a \<open>texture\<close> path; and what it writes: \<open>CurrentNode\<close>. An absent attribute
  (a null pointer in the source) is \<open>None\<close>.
\<close>

record LinkAttr =
  link_value :: string
  go :: "string option"

record Attributes =
  Text :: "string option"
  Links :: "LinkAttr list option"
  CurrentNode :: "string option"
  texture :: "string option"

text \<open>
  Modelled from the spec: \<^verbatim>\<open>ATTRIBUTES::GetAttributeClass(index)\<close>, the child at a
  position, null when there is no such child ("whose selected entry exists").
\<close>

definition GetAttributeClass :: "LinkAttr list \<Rightarrow> int \<Rightarrow> LinkAttr option" where
  "GetAttributeClass ls i =
     (if to_size_t i < int (length ls) then Some (ls ! nat (to_size_t i)) else None)"

record AttrChange =
  newAttributes :: Attributes  \<comment> \<open>the tree after the script's assignment\<close>
  changedName :: string        \<comment> \<open>\<^verbatim>\<open>attributes->GetThisName()\<close>\<close>
  changedValue :: string       \<comment> \<open>\<^verbatim>\<open>attributes->GetThisAttr()\<close>\<close>

typedef posnat = "{n :: nat. 0 < n}"
  by (rule exI [of _ 1]) simp

setup_lifting type_definition_posnat

lift_definition posnat_of :: "nat \<Rightarrow> posnat" is "\<lambda>n. if 0 < n then n else 1"
  \<comment> \<open>the positive number \<open>n\<close>; there is none for 0, which gives 1\<close>
  by simp

record Host =
  viewportWidth :: nat   \<comment> \<open>\<^verbatim>\<open>RenderService->GetViewport\<close>\<close>
  viewportHeight :: nat
  ScreenSize_width :: posnat  \<comment> \<open>\<^verbatim>\<open>core.GetScreenSize()\<close>, never zero\<close>
  ScreenSize_height :: posnat
  CharHeight :: "int \<Rightarrow> int"  \<comment> \<open>\<^verbatim>\<open>RenderService->CharHeight(font)\<close>\<close>
  AddToStringArrayLimitedByWidth :: "string \<Rightarrow> int \<Rightarrow> real \<Rightarrow> int \<Rightarrow> string list"
    \<comment> \<open>the wrapper of \<^verbatim>\<open>dialog.cpp\<close>: the lines it adds for a text, a font, a font scale
        and a width limit\<close>
  iEquals :: "string \<Rightarrow> string \<Rightarrow> bool"  \<comment> \<open>\<^verbatim>\<open>storm::iEquals\<close>\<close>
  ControlActivated :: "string \<Rightarrow> bool"
    \<comment> \<open>\<^verbatim>\<open>GetControlState(name, cs)\<close> gives \<^verbatim>\<open>cs.state == CST_ACTIVATED\<close>\<close>
  RDeltaTime :: nat      \<comment> \<open>\<^verbatim>\<open>core.GetRDeltaTime()\<close>, a \<^verbatim>\<open>uint32_t\<close>\<close>
  SoundPlayHandle :: nat \<comment> \<open>what \<^verbatim>\<open>SoundPlay\<close> returns for the greeting\<close>
  SoundIsPlaying :: bool
  DialogEventHandler :: "Attributes \<Rightarrow> AttrChange list"
    \<comment> \<open>the assignments the script makes when \<^verbatim>\<open>DialogEvent\<close> is raised\<close>
  SoundServiceAvailable :: bool
  LoadFont :: "string \<Rightarrow> int"  \<comment> \<open>the font handle for a key of the ini file\<close>

definition screenWidth :: "Host \<Rightarrow> nat" where
  "screenWidth h = Rep_posnat (ScreenSize_width h)"

definition screenHeight :: "Host \<Rightarrow> nat" where
  "screenHeight h = Rep_posnat (ScreenSize_height h)"

record LegacyDialog =
  \<comment> \<open>members of the component\<close>
  screenScale_x :: real
  screenScale_y :: real
  fontScale :: real
  lineHeight :: int
  backNeedsUpdate :: bool
  textureLines :: int
  links :: "string list"
  formattedLinks :: "LinkEntry list"
  dialogText :: string
  formattedDialogText :: "string list"
  selectedLink :: int
  fadeTime :: int
  soundState :: SoundState
  soundName :: string
  currentSound :: nat
  mood :: string
  mainFont :: int
  subFont :: int
  interfaceTexture :: string
  headModelPath :: string
  backVertexBuffer :: nat
  backIndexBuffer :: nat
  soundService :: bool  \<comment> \<open>\<^verbatim>\<open>soundService_ != nullptr\<close>\<close>
  \<comment> \<open>the engine, as far as the component acts on it\<close>
  attributes :: Attributes
  timeScale :: real
  soundsPlayed :: "Sound list"
  events :: "string list"
  vertexBuffers :: "XI_TEX_VERTEX list list"
  indexBuffers :: "nat list list"
  vertexLocks :: nat  \<comment> \<open>number of \<^verbatim>\<open>LockVertexBuffer\<close> calls so far\<close>

subsection \<open>Constants of the source\<close>

definition COLOR_NORMAL :: nat where
  "COLOR_NORMAL = 0xFFFFFFFF"

definition UNFADE_TIME :: int where
  "UNFADE_TIME = 1000"

definition DIALOG_MAX_LINES :: nat where
  "DIALOG_MAX_LINES = 8"

definition DIVIDER_HEIGHT :: real where
  "DIVIDER_HEIGHT = 10"

definition DIALOG_LINE_HEIGHT :: int where
  "DIALOG_LINE_HEIGHT = 26"

definition DEFAULT_INTERFACE_TEXTURE :: string where
  "DEFAULT_INTERFACE_TEXTURE = ''dialog/dialog.tga''"

definition ScaleUv :: "FRECT \<Rightarrow> FRECT" where
  "ScaleUv r = \<lparr>x1 = x1 r * (1 / 1024), y1 = y1 r * (1 / 256),
                x2 = x2 r * (1 / 1024), y2 = y2 r * (1 / 256)\<rparr>"

definition rect :: "real \<Rightarrow> real \<Rightarrow> real \<Rightarrow> real \<Rightarrow> FRECT" where
  "rect a b c d = \<lparr>x1 = a, y1 = b, x2 = c, y2 = d\<rparr>"

definition SPRITE_DATA :: "SpriteInfo list" where
  "SPRITE_DATA =
    [\<lparr>position = rect 29 25 147 37, uv = ScaleUv (rect 904 91 (904 + 119) (91 + 12))\<rparr>,
     \<lparr>position = rect 29 173 146 185, uv = ScaleUv (rect 904 105 (904 + 119) (105 + 11))\<rparr>,
     \<lparr>position = rect (-39) (-39) 169 216, uv = ScaleUv (rect 0 0 208 255)\<rparr>,
     \<lparr>position = rect 169 (-39) 678 79, uv = ScaleUv (rect 208 0 757 118)\<rparr>,
     \<lparr>position = rect (-39) 451 678 518, uv = ScaleUv (rect 209 189 1023 255)\<rparr>,
     \<lparr>position = rect 29 25 147 37, uv = ScaleUv (rect 904 91 1023 103)\<rparr>,
     \<lparr>position = rect 29 173 146 185, uv = ScaleUv (rect 904 105 1023 116)\<rparr>,
     \<lparr>position = rect (-39) (of_int (479 - 67 + 39 - DIALOG_LINE_HEIGHT)) (639 + 39)
                   (of_int (479 - 67 + 39)),
      uv = ScaleUv (rect 209 155 1023 186)\<rparr>,
     \<lparr>position = rect (-39) (of_int (479 - 67 + 39 - DIALOG_LINE_HEIGHT)) (639 + 39)
                   (of_int (479 - 67 + 39)),
      uv = ScaleUv (rect 209 119 1023 156)\<rparr>,
     \<lparr>position = rect 35 (450 - DIVIDER_HEIGHT / 2) 605 (450 + (DIVIDER_HEIGHT + 2)),
      uv = ScaleUv (rect 209 94 602 116)\<rparr>]"

definition SPRITE_COUNT :: nat where
  "SPRITE_COUNT = length SPRITE_DATA + (DIALOG_MAX_LINES - 1)"

subsection \<open>Link and text updates\<close>

definition text_width_limit :: "Host \<Rightarrow> int" where
  \<comment> \<open>\<^verbatim>\<open>static_cast<int32_t>(570.f * (vp.Width / 640.f))\<close>\<close>
  "text_width_limit h =
     trunc_int32 (float32 (570 * float32 (float32 (real (viewportWidth h)) / 640)))"

fun number_lines :: "Host \<Rightarrow> LegacyDialog \<Rightarrow> nat \<Rightarrow> LinkAttr list \<Rightarrow> LinkEntry list" where
  \<comment> \<open>the body of the loop over the children of \<open>Links\<close>, from child \<open>i\<close> on\<close>
  "number_lines h s i [] = []"
| "number_lines h s i (l # ls) =
     map (\<lambda>t. \<lparr>line_text = t, lineIndex = to_int32 (int i)\<rparr>)
       (AddToStringArrayLimitedByWidth h (link_value l) (subFont s) (fontScale s)
          (text_width_limit h))
     @ number_lines h s (Suc i) ls"

definition UpdateLinks :: "Host \<Rightarrow> LegacyDialog \<Rightarrow> LegacyDialog" where
  "UpdateLinks h s =
     (let previous_link_lines = length (formattedLinks s);
          s1 = s\<lparr>links := [], formattedLinks := []\<rparr>;
          s2 = (case Links (attributes s1) of
                  None \<Rightarrow> s1
                | Some links_attr \<Rightarrow>
                    s1\<lparr>links := map link_value links_attr,
                       formattedLinks := number_lines h s1 0 links_attr\<rparr>)
      in if previous_link_lines \<noteq> length (formattedLinks s2)
         then s2\<lparr>backNeedsUpdate := True\<rparr> else s2)"

definition UpdateDialogText :: "Host \<Rightarrow> LegacyDialog \<Rightarrow> LegacyDialog" where
  "UpdateDialogText h s =
     (let previous_lines = length (formattedDialogText s);
          s1 = (case Text (attributes s) of
                  None \<Rightarrow> s
                | Some text_attr \<Rightarrow> s\<lparr>dialogText := text_attr\<rparr>);
          s2 = s1\<lparr>formattedDialogText := []\<rparr>;
          s3 = (if dialogText s2 \<noteq> []
                then s2\<lparr>formattedDialogText :=
                         AddToStringArrayLimitedByWidth h (dialogText s2) (mainFont s2)
                           (fontScale s2) (text_width_limit h)\<rparr>
                else s2)
      in if previous_lines \<noteq> length (formattedDialogText s3)
         then s3\<lparr>backNeedsUpdate := True\<rparr> else s3)"

definition UpdateHeadModel :: "string \<Rightarrow> LegacyDialog \<Rightarrow> LegacyDialog" where
  \<comment> \<open>the head model is an entity of the engine; only the stored path is kept here\<close>
  "UpdateHeadModel headModelPath_arg s =
     (let newHeadModelPath = ''Heads/'' @ headModelPath_arg
      in if headModelPath s \<noteq> newHeadModelPath
         then s\<lparr>headModelPath := newHeadModelPath\<rparr> else s)"

definition AttributeChanged :: "Host \<Rightarrow> string \<Rightarrow> string \<Rightarrow> LegacyDialog \<Rightarrow> LegacyDialog" where
  "AttributeChanged h attributeName attributeValue s =
     (if iEquals h attributeName ''texture'' then s\<lparr>interfaceTexture := attributeValue\<rparr>
      else if iEquals h attributeName ''headModel'' then UpdateHeadModel attributeValue s
      else if iEquals h attributeName ''mood'' then s\<lparr>mood := attributeValue\<rparr>
      else if iEquals h attributeName ''greeting''
        then s\<lparr>soundName := attributeValue, soundState := SOUND_STARTING\<rparr>
      else UpdateDialogText h (UpdateLinks h s))"

definition script_assign :: "Host \<Rightarrow> LegacyDialog \<Rightarrow> AttrChange \<Rightarrow> LegacyDialog" where
  \<comment> \<open>the script assigns an attribute of the dialog entity; the engine then notifies it\<close>
  "script_assign h s c =
     AttributeChanged h (changedName c) (changedValue c) (s\<lparr>attributes := newAttributes c\<rparr>)"

definition core_Event :: "Host \<Rightarrow> string \<Rightarrow> LegacyDialog \<Rightarrow> LegacyDialog" where
  \<comment> \<open>\<^verbatim>\<open>core.Event\<close>: the event is raised and the script's handler runs at once\<close>
  "core_Event h name s =
     foldl (script_assign h) (s\<lparr>events := events s @ [name]\<rparr>)
       (DialogEventHandler h (attributes s))"

subsection \<open>Controls\<close>

definition PlayTick :: "LegacyDialog \<Rightarrow> LegacyDialog" where
  "PlayTick s =
     (if soundService s then s\<lparr>soundsPlayed := soundsPlayed s @ [TICK_SOUND]\<rparr> else s)"

definition bDoUp :: "Host \<Rightarrow> bool" where
  "bDoUp h = (ControlActivated h ''DlgUp'' \<or> ControlActivated h ''DlgUp2''
              \<or> ControlActivated h ''DlgUp3'')"

definition bDoDown :: "Host \<Rightarrow> bool" where
  "bDoDown h = (ControlActivated h ''DlgDown'' \<or> ControlActivated h ''DlgDown2''
                \<or> ControlActivated h ''DlgDown3'')"

definition bDoAction :: "Host \<Rightarrow> bool" where
  "bDoAction h = (ControlActivated h ''DlgAction'' \<or> ControlActivated h ''DlgAction1''
                  \<or> ControlActivated h ''DlgAction2'')"

definition move_selection :: "Host \<Rightarrow> LegacyDialog \<Rightarrow> LegacyDialog" where
  \<comment> \<open>the first two thirds of \<open>ProcessControls\<close>: up, then down\<close>
  "move_selection h s =
     (let s1 = (if bDoUp h \<and> selectedLink s > 0
                then (PlayTick s)\<lparr>selectedLink := to_int32 (selectedLink s - 1)\<rparr> else s)
      in if bDoDown h
            \<and> to_size_t (selectedLink s1) < to_size_t (int (length (links s1)) - 1)
         then (PlayTick s1)\<lparr>selectedLink := to_int32 (selectedLink s1 + 1)\<rparr> else s1)"

definition ProcessControls :: "Host \<Rightarrow> LegacyDialog \<Rightarrow> LegacyDialog" where
  "ProcessControls h s =
     (let s2 = move_selection h s
      in if bDoAction h
         then (let s3 = PlayTick s2
               in case Links (attributes s3) of
                    None \<Rightarrow> s3
                  | Some links_attr \<Rightarrow>
                      (case GetAttributeClass links_attr (selectedLink s3) of
                         None \<Rightarrow> s3
                       | Some selected_attr \<Rightarrow>
                           core_Event h ''DialogEvent''
                             (s3\<lparr>attributes := (attributes s3)\<lparr>CurrentNode := go selected_attr\<rparr>,
                                 selectedLink := 0\<rparr>)))
         else s2)"

subsection \<open>Unfade\<close>

definition Unfade :: "Host \<Rightarrow> LegacyDialog \<Rightarrow> LegacyDialog" where
  \<comment> \<open>the comparison is made in \<^verbatim>\<open>uint32_t\<close>, the type of \<open>UNFADE_TIME\<close>\<close>
  "Unfade h s =
     (if to_uint32 (fadeTime s) \<le> UNFADE_TIME
      then (let fadeTime' = to_int32 (fadeTime s + to_int32 (int (RDeltaTime h)));
                timeK = real_of_int fadeTime' / real_of_int UNFADE_TIME;
                timeK' = (if timeK > 1 then 1 else timeK)
            in s\<lparr>fadeTime := fadeTime', timeScale := timeK'\<rparr>)
      else s)"

subsection \<open>Screen scale\<close>

definition viewport_hScale :: "Host \<Rightarrow> real" where
  \<comment> \<open>\<^verbatim>\<open>static_cast<float>(viewport.Width) / static_cast<float>(screenSize.width)\<close>\<close>
  "viewport_hScale h = float32 (float32 (real (viewportWidth h)) / float32 (real (screenWidth h)))"

definition viewport_vScale :: "Host \<Rightarrow> real" where
  "viewport_vScale h
   = float32 (float32 (real (viewportHeight h)) / float32 (real (screenHeight h)))"

definition UpdateScreenSize :: "Host \<Rightarrow> LegacyDialog \<Rightarrow> LegacyDialog" where
  "UpdateScreenSize h s =
     (let hScale = viewport_hScale h;
          vScale = viewport_vScale h;
          s1 = (if \<bar>float32 (screenScale_x s - hScale)\<bar> > EPSILON
                   \<or> \<bar>float32 (screenScale_y s - vScale)\<bar> > EPSILON
                then s\<lparr>screenScale_x := hScale, screenScale_y := vScale, backNeedsUpdate := True\<rparr>
                else s);
          oldFontScale = fontScale s1;
          s2 = s1\<lparr>fontScale := float32 (float32 (real (viewportHeight h)) / 600)\<rparr>
      in if \<bar>float32 (fontScale s2 - oldFontScale)\<bar> > EPSILON
         then s2\<lparr>lineHeight :=
                  trunc_int32 (float32 (float32 (real_of_int (CharHeight h (mainFont s2)))
                                        * fontScale s2))\<rparr>
         else s2)"

subsection \<open>The panel mesh\<close>

definition empty_vertex :: XI_TEX_VERTEX where
  \<comment> \<open>what a vertex buffer holds before it is first written; the device does not say\<close>
  "empty_vertex = \<lparr>pos_x = 0, pos_y = 0, pos_z = 0, rhw = 0, color = 0, tex_u = 0, tex_v = 0\<rparr>"

definition FillIndexBuffer :: "nat list \<Rightarrow> nat \<Rightarrow> nat list" where
  "FillIndexBuffer pI spriteCount =
     foldl (\<lambda>pI n. pI[n * 6 + 0 := to_uint16 (n * 4 + 0),
                         n * 6 + 1 := to_uint16 (n * 4 + 2),
                         n * 6 + 2 := to_uint16 (n * 4 + 1),
                         n * 6 + 3 := to_uint16 (n * 4 + 1),
                         n * 6 + 4 := to_uint16 (n * 4 + 2),
                         n * 6 + 5 := to_uint16 (n * 4 + 3)])
       pI [0..<spriteCount]"

definition CreateBackBuffers :: "LegacyDialog \<Rightarrow> LegacyDialog" where
  \<comment> \<open>a buffer handle is the position of the buffer in the render service's store\<close>
  "CreateBackBuffers s =
     (let vertex_count = SPRITE_COUNT * 4;
          index_count = SPRITE_COUNT * 6;
          s1 = s\<lparr>backVertexBuffer := length (vertexBuffers s),
                 vertexBuffers := vertexBuffers s @ [replicate vertex_count empty_vertex]\<rparr>;
          s2 = s1\<lparr>backIndexBuffer := length (indexBuffers s1),
                  indexBuffers := indexBuffers s1 @ [replicate index_count 0]\<rparr>
      in s2\<lparr>indexBuffers := (indexBuffers s2)
                [backIndexBuffer s2 :=
                   FillIndexBuffer (indexBuffers s2 ! backIndexBuffer s2) SPRITE_COUNT]\<rparr>)"

definition createSpriteMesh :: "real \<Rightarrow> real \<Rightarrow> SpriteInfo \<Rightarrow> XI_TEX_VERTEX list" where
  "createSpriteMesh hScale vScale sprite =
     [\<lparr>pos_x = hScale * x1 (position sprite), pos_y = vScale * y1 (position sprite), pos_z = 1,
       rhw = 0.5, color = COLOR_NORMAL, tex_u = x1 (uv sprite), tex_v = y1 (uv sprite)\<rparr>,
      \<lparr>pos_x = hScale * x2 (position sprite), pos_y = vScale * y1 (position sprite), pos_z = 1,
       rhw = 0.5, color = COLOR_NORMAL, tex_u = x2 (uv sprite), tex_v = y1 (uv sprite)\<rparr>,
      \<lparr>pos_x = hScale * x1 (position sprite), pos_y = vScale * y2 (position sprite), pos_z = 1,
       rhw = 0.5, color = COLOR_NORMAL, tex_u = x1 (uv sprite), tex_v = y2 (uv sprite)\<rparr>,
      \<lparr>pos_x = hScale * x2 (position sprite), pos_y = vScale * y2 (position sprite), pos_z = 1,
       rhw = 0.5, color = COLOR_NORMAL, tex_u = x2 (uv sprite), tex_v = y2 (uv sprite)\<rparr>]"

definition write_vertices :: "XI_TEX_VERTEX list \<times> nat \<Rightarrow> XI_TEX_VERTEX list \<Rightarrow> XI_TEX_VERTEX list \<times> nat" where
  \<comment> \<open>the four assignments \<^verbatim>\<open>pV[vi++] = vertices[k]\<close>\<close>
  "write_vertices b vertices =
     (case b of (pV, vi) \<Rightarrow>
        (pV[vi := vertices ! 0, vi + 1 := vertices ! 1, vi + 2 := vertices ! 2,
            vi + 3 := vertices ! 3], vi + 4))"

definition move_up :: "SpriteInfo \<Rightarrow> real \<Rightarrow> SpriteInfo" where
  \<comment> \<open>\<^verbatim>\<open>position.top -= offset; position.bottom -= offset\<close>\<close>
  "move_up sprite_data offset =
     sprite_data\<lparr>position :=
       (position sprite_data)\<lparr>y1 := float32 (y1 (position sprite_data) - offset),
                                y2 := float32 (y2 (position sprite_data) - offset)\<rparr>\<rparr>"

definition new_textureLines :: "LegacyDialog \<Rightarrow> int" where
  \<comment> \<open>The value the block "Top of main dialog" assigns to \<^verbatim>\<open>textureLines_\<close>. With a
      vertical scale of 0 the quotient under the floor is an infinity or a NaN and its
      conversion gives \<open>- 2^31\<close> (see \<open>trunc_int32\<close>).\<close>
  "new_textureLines s =
     (let vScale = screenScale_y s;
          text_lines = length (formattedDialogText s) + length (formattedLinks s);
          textureLines0 =
            (if vScale = 0 then - (2 ^ 31)
             else trunc_int32
                    (of_int \<lfloor>double64
                              (float32
                                 (float32 (real_of_int
                                    (to_size_t (int text_lines * to_size_t (lineHeight s))))
                                  / vScale)
                               / real_of_int DIALOG_LINE_HEIGHT)\<rfloor>))
      in if formattedLinks s \<noteq> [] then to_int32 (textureLines0 + 1) else textureLines0)"

definition UpdateBackBuffers :: "LegacyDialog \<Rightarrow> LegacyDialog" where
  \<comment> \<open>With a vertical scale of 0 the offset of the divider is an infinity or a NaN in the
      source, which has no counterpart here.\<close>
  "UpdateBackBuffers s =
     (let hScale = screenScale_x s;
          vScale = screenScale_y s;
          b0 = (vertexBuffers s ! backVertexBuffer s, 0);
          b1 = foldl (\<lambda>b i. write_vertices b (createSpriteMesh hScale vScale (SPRITE_DATA ! i)))
                 b0 [0..<7];
          b2 = foldl (\<lambda>b i. write_vertices b
                        (createSpriteMesh hScale vScale
                           (move_up (SPRITE_DATA ! 7) (real_of_int (DIALOG_LINE_HEIGHT * int i)))))
                 b1 [0..<DIALOG_MAX_LINES];
          textureLines1 = new_textureLines s;
          b3 = write_vertices b2
                 (createSpriteMesh hScale vScale
                    (move_up (SPRITE_DATA ! 8)
                       (float32 (real_of_int DIALOG_LINE_HEIGHT
                                 * float32 (real_of_int textureLines1)))));
          b4 = write_vertices b3
                 (createSpriteMesh hScale vScale
                    (move_up (SPRITE_DATA ! 9)
                       (float32 (float32 (float32 (real (length (formattedLinks s)))
                                          * float32 (real_of_int (lineHeight s)))
                                 / vScale))))
      in s\<lparr>textureLines := textureLines1,
           vertexBuffers := (vertexBuffers s)[backVertexBuffer s := fst b4],
           vertexLocks := vertexLocks s + 1,
           backNeedsUpdate := False\<rparr>)"

definition panel_sprites :: "LegacyDialog \<Rightarrow> SpriteInfo list" where
  \<comment> \<open>the sprites of the panel in the order in which \<open>UpdateBackBuffers\<close> writes them:
      seven fixed tiles, the eight line tiles, the top of the panel, the divider\<close>
  "panel_sprites s =
     map (\<lambda>i. SPRITE_DATA ! i) [0..<7]
     @ map (\<lambda>i. move_up (SPRITE_DATA ! 7) (real_of_int (DIALOG_LINE_HEIGHT * int i)))
         [0..<DIALOG_MAX_LINES]
     @ [move_up (SPRITE_DATA ! 8)
          (float32 (real_of_int DIALOG_LINE_HEIGHT
                    * float32 (real_of_int (textureLines (UpdateBackBuffers s))))),
        move_up (SPRITE_DATA ! 9)
          (float32 (float32 (float32 (real (length (formattedLinks s)))
                             * float32 (real_of_int (lineHeight s)))
                    / screenScale_y s))]"

subsection \<open>Initialisation and the frame\<close>

definition LoadIni :: "Host \<Rightarrow> LegacyDialog \<Rightarrow> LegacyDialog" where
  \<comment> \<open>the name font is used for drawing only and is not kept here\<close>
  "LoadIni h s = s\<lparr>mainFont := LoadFont h ''mainfont'', subFont := LoadFont h ''subfont''\<rparr>"

definition Init :: "Host \<Rightarrow> LegacyDialog \<Rightarrow> LegacyDialog" where
  "Init h s =
     (let s1 = s\<lparr>soundService := SoundServiceAvailable h, timeScale := 0\<rparr>;
          s2 = LoadIni h s1;
          s3 = UpdateScreenSize h s2;
          s4 = s3\<lparr>interfaceTexture :=
                   (case texture (attributes s3) of
                      None \<Rightarrow> DEFAULT_INTERFACE_TEXTURE
                    | Some t \<Rightarrow> t)\<rparr>
      in CreateBackBuffers s4)"

definition start_greeting :: "Host \<Rightarrow> LegacyDialog \<Rightarrow> LegacyDialog" where
  "start_greeting h s =
     (if soundState s = SOUND_STARTING \<and> soundName s \<noteq> [] \<and> soundService s
      then (let s1 = s\<lparr>currentSound := SoundPlayHandle h,
                        soundsPlayed := soundsPlayed s @ [Speech (soundName s)]\<rparr>
            in if currentSound s1 \<noteq> 0 then s1\<lparr>soundState := SOUND_PLAYING\<rparr> else s1)
      else s)"

definition stop_greeting :: "Host \<Rightarrow> LegacyDialog \<Rightarrow> LegacyDialog" where
  "stop_greeting h s =
     (if soundState s = SOUND_PLAYING \<and> soundService s \<and> \<not> SoundIsPlaying h
      then s\<lparr>soundState := SOUND_STOPPED\<rparr> else s)"

definition Realize :: "Host \<Rightarrow> LegacyDialog \<Rightarrow> LegacyDialog" where
  \<comment> \<open>the draw calls between the rebuild and the end of the greeting read the state only\<close>
  "Realize h s =
     (let s1 = Unfade h s;
          s2 = start_greeting h s1;
          s3 = UpdateScreenSize h s2;
          s4 = ProcessControls h s3;
          s5 = (if backNeedsUpdate s4 then UpdateBackBuffers s4 else s4)
      in stop_greeting h s5)"

definition before_rebuild :: "Host \<Rightarrow> LegacyDialog \<Rightarrow> LegacyDialog" where
  \<comment> \<open>the state in which \<open>Realize\<close> tests \<^verbatim>\<open>backNeedsUpdate_\<close>\<close>
  "before_rebuild h s = ProcessControls h (UpdateScreenSize h (start_greeting h (Unfade h s)))"

text \<open>
  The engine drives the component: once per frame it calls \<open>Realize\<close>, and whenever the
  script assigns an attribute of the dialog entity it calls \<open>AttributeChanged\<close>.
\<close>

datatype Call = Frame Host | Assign Host AttrChange

fun call :: "LegacyDialog \<Rightarrow> Call \<Rightarrow> LegacyDialog" where
  "call s (Frame h) = Realize h s"
| "call s (Assign h c) = script_assign h s c"

definition run :: "LegacyDialog \<Rightarrow> Call list \<Rightarrow> LegacyDialog" where
  "run s cs = foldl call s cs"



section \<open>Concrete situations\<close>

text \<open>
  A host in which nothing happens (no control is active, the script does not react to
  events, every text fits on one line) and a dialog whose members are all zero or empty,
  for evaluating the functions above on concrete inputs.
\<close>

definition one_line_wrap :: "string \<Rightarrow> int \<Rightarrow> real \<Rightarrow> int \<Rightarrow> string list" where
  "one_line_wrap t font scale limit = (if t = [] then [] else [t])"

definition quiet_host :: Host where
  "quiet_host =
     \<lparr>viewportWidth = 640, viewportHeight = 600,
      ScreenSize_width = posnat_of 640, ScreenSize_height = posnat_of 600,
      CharHeight = (\<lambda>font. 20), AddToStringArrayLimitedByWidth = one_line_wrap,
      iEquals = (\<lambda>a b. a = b), ControlActivated = (\<lambda>name. False), RDeltaTime = 250,
      SoundPlayHandle = 1, SoundIsPlaying = True, DialogEventHandler = (\<lambda>a. []),
      SoundServiceAvailable = True, LoadFont = (\<lambda>key. 0)\<rparr>"

definition pressing :: "string \<Rightarrow> Host \<Rightarrow> Host" where
  "pressing name h = h\<lparr>ControlActivated := (\<lambda>n. n = name)\<rparr>"

definition no_attributes :: Attributes where
  "no_attributes = \<lparr>Text = None, Links = None, CurrentNode = None, texture = None\<rparr>"

definition blank_dialog :: LegacyDialog where
  "blank_dialog =
     \<lparr>screenScale_x = 0, screenScale_y = 0, fontScale = 0, lineHeight = 0,
      backNeedsUpdate = True, textureLines = 0, links = [], formattedLinks = [],
      dialogText = [], formattedDialogText = [], selectedLink = 0, fadeTime = 0,
      soundState = SOUND_STOPPED, soundName = [], currentSound = 0, mood = [],
      mainFont = 0, subFont = 0, interfaceTexture = [], headModelPath = [],
      backVertexBuffer = 0, backIndexBuffer = 0, soundService = True,
      attributes = no_attributes, timeScale = 0, soundsPlayed = [], events = [],
      vertexBuffers = [], indexBuffers = [], vertexLocks = 0\<rparr>"

definition three_links :: "LinkAttr list" where
  "three_links =
     [\<lparr>link_value = ''A'', go = Some ''node_a''\<rparr>,
      \<lparr>link_value = ''B'', go = Some ''node_b''\<rparr>,
      \<lparr>link_value = ''C'', go = Some ''node_c''\<rparr>]"

definition abc_dialog :: LegacyDialog where
  "abc_dialog =
     blank_dialog\<lparr>attributes := no_attributes\<lparr>Links := Some three_links\<rparr>,
                  links := [''A'', ''B'', ''C''],
                  formattedLinks := [\<lparr>line_text = ''A'', lineIndex = 0\<rparr>,
                                     \<lparr>line_text = ''B'', lineIndex = 1\<rparr>,
                                     \<lparr>line_text = ''C'', lineIndex = 2\<rparr>],
                  selectedLink := 2, backNeedsUpdate := False\<rparr>"

definition wide_host :: "nat \<Rightarrow> Host" where
  \<comment> \<open>a viewport of the given width and 768 lines on a 1024 by 768 screen\<close>
  "wide_host w =
     quiet_host\<lparr>viewportWidth := w, viewportHeight := 768,
                ScreenSize_width := posnat_of 1024, ScreenSize_height := posnat_of 768\<rparr>"

definition one_link_node :: AttrChange where
  \<comment> \<open>the script moves to a node with a single link\<close>
  "one_link_node =
     \<lparr>newAttributes = no_attributes\<lparr>Links := Some [\<lparr>link_value = ''X'', go = Some ''node_x''\<rparr>]\<rparr>,
      changedName = ''l1'', changedValue = ''X''\<rparr>"

definition greeted_dialog :: LegacyDialog where
  \<comment> \<open>a dialog showing a body text, on a node that has no \<open>Text\<close> attribute\<close>
  "greeted_dialog = blank_dialog\<lparr>dialogText := ''Hello'', formattedDialogText := []\<rparr>"


definition ready_dialog :: LegacyDialog where
  "ready_dialog = Init quiet_host blank_dialog"




definition drifting_dialog :: LegacyDialog where
  \<comment> \<open>initialised at width 1024, then one frame at width 1024 and one at width 1025\<close>
  "drifting_dialog =
     Realize (wide_host 1025) (Realize (wide_host 1024) (Init (wide_host 1024) blank_dialog))"

text \<open>
  Two notions for stating when the mesh is rebuilt: the scale the host shows differs from the
  stored one by more than the epsilon of \<open>UpdateScreenSize\<close>, and the numbers of wrapped
  body lines and link lines.
\<close>

definition scale_moved :: "Host \<Rightarrow> LegacyDialog \<Rightarrow> bool" where
  "scale_moved h s =
     (\<bar>float32 (screenScale_x s - viewport_hScale h)\<bar> > EPSILON
      \<or> \<bar>float32 (screenScale_y s - viewport_vScale h)\<bar> > EPSILON)"

definition line_counts :: "LegacyDialog \<Rightarrow> nat \<times> nat" where
  "line_counts s = (length (formattedDialogText s), length (formattedLinks s))"

section \<open>Properties\<close>

subsection \<open>Rounding\<close>

lemma pow2_powr: "pow2 k = 2 powr (of_int k)"
  by (simp add: pow2_def powr_int)

lemma float_exponent_log:
  assumes "x \<noteq> 0"
  shows "float_exponent x = \<lfloor>log 2 \<bar>x\<bar>\<rfloor>"
proof (cases "1 \<le> \<bar>x\<bar>")
  case True
  define m where "m = nat \<lfloor>\<bar>x\<bar>\<rfloor>"
  have m: "1 \<le> m" "real m \<le> \<bar>x\<bar>" "\<bar>x\<bar> < real m + 1"
    using True by (simp_all add: m_def le_nat_floor)
  define k where "k = \<lfloor>log 2 (real m)\<rfloor>"
  have k0: "0 \<le> k" using m(1) by (simp add: k_def)
  have kk: "2 powr real_of_int k \<le> real m \<and> real m < 2 powr real_of_int (k + 1)"
    using m(1) floor_log_eq_powr_iff [of "real m" 2 k] by (simp add: k_def)
  have p: "2 powr real_of_int k = 2 ^ nat k" "2 powr real_of_int (k + 1) = 2 ^ nat (k + 1)"
    using k0 pow2_powr [of k, symmetric] pow2_powr [of "k + 1", symmetric]
    by (simp_all add: pow2_def)
  have "real m < real ((2::nat) ^ nat (k + 1))" using kk p by simp
  then have "m < 2 ^ nat (k + 1)" by (simp only: of_nat_less_iff)
  then have "m + 1 \<le> 2 ^ nat (k + 1)" by simp
  then have "real (m + 1) \<le> real ((2::nat) ^ nat (k + 1))" by (simp only: of_nat_le_iff)
  then have "real m + 1 \<le> 2 ^ nat (k + 1)" by simp
  then have u: "\<bar>x\<bar> < 2 powr real_of_int (k + 1)" unfolding p using m(3) by linarith
  have l: "2 powr real_of_int k \<le> \<bar>x\<bar>" using kk m(2) by linarith
  have "\<lfloor>log 2 \<bar>x\<bar>\<rfloor> = k"
    using l u assms floor_log_eq_powr_iff [of "\<bar>x\<bar>" 2 k] by simp
  moreover have "float_exponent x = k"
    using True m(1) k0 by (simp add: float_exponent_def floorlog_def m_def [symmetric] k_def)
  ultimately show ?thesis by simp
next
  case False
  define z where "z = 1 / \<bar>x\<bar>"
  have x: "0 < \<bar>x\<bar>" "\<bar>x\<bar> < 1" using assms False by auto
  have z: "1 < z" using x by (simp add: z_def)
  define m where "m = nat \<lceil>z\<rceil>"
  have cz: "2 \<le> \<lceil>z\<rceil>" using z by linarith
  have m: "2 \<le> m" "z \<le> real m" "real m - 1 < z"
  proof -
    show "2 \<le> m" using nat_mono [OF cz] by (simp add: m_def)
    have "0 \<le> \<lceil>z\<rceil>" using cz by linarith
    then have r: "real m = of_int \<lceil>z\<rceil>" unfolding m_def by (rule of_nat_nat)
    show "z \<le> real m" unfolding r by (rule le_of_int_ceiling)
    show "real m - 1 < z" unfolding r by linarith
  qed
  define c where "c = floorlog 2 (m - 1)"
  have c: "c = nat \<lfloor>log 2 (real (m - 1))\<rfloor> + 1"
    using m(1) by (simp add: c_def floorlog_def)
  define k where "k = \<lfloor>log 2 (real (m - 1))\<rfloor>"
  have k0: "0 \<le> k" using m(1) by (simp add: k_def)
  have ck: "int c = k + 1" using c k0 by (simp add: k_def)
  have kk: "2 powr real_of_int k \<le> real (m - 1) \<and> real (m - 1) < 2 powr real_of_int (k + 1)"
    using m(1) floor_log_eq_powr_iff [of "real (m - 1)" 2 k] by (simp add: k_def)
  have p: "2 powr real_of_int k = 2 ^ nat k" "2 powr real_of_int (k + 1) = 2 ^ nat (k + 1)"
    using k0 pow2_powr [of k, symmetric] pow2_powr [of "k + 1", symmetric]
    by (simp_all add: pow2_def)
  have "real (m - 1) < real ((2::nat) ^ nat (k + 1))" using kk p by simp
  then have "m - 1 < 2 ^ nat (k + 1)" by (simp only: of_nat_less_iff)
  then have "m \<le> 2 ^ nat (k + 1)" using m(1) by simp
  then have "real m \<le> real ((2::nat) ^ nat (k + 1))" by (simp only: of_nat_le_iff)
  then have "real m \<le> 2 ^ nat (k + 1)" by simp
  then have zu: "z \<le> 2 ^ nat (k + 1)" using m(2) by linarith
  have "real (m - 1) = real m - 1" using m(1) by simp
  then have "2 ^ nat k \<le> real m - 1" using kk unfolding p by simp
  then have zl: "2 ^ nat k < z" using m(3) by linarith
  have pos: "(0::real) < 2 ^ nat k" "(0::real) < 2 ^ nat (k + 1)" by simp_all
  have xl: "1 / 2 ^ nat (k + 1) \<le> \<bar>x\<bar>"
    using zu x(1) pos by (simp add: z_def field_simps)
  have xu: "\<bar>x\<bar> < 1 / 2 ^ nat k"
    using zl x(1) pos by (simp add: z_def field_simps)
  have q: "2 powr real_of_int (- (k + 1)) = 1 / 2 ^ nat (k + 1)"
    "2 powr real_of_int (- (k + 1) + 1) = 1 / 2 ^ nat k"
    using k0 pow2_powr [of "- (k + 1)", symmetric] pow2_powr [of "- (k + 1) + 1", symmetric]
    by (simp_all add: pow2_def)
  have "\<lfloor>log 2 \<bar>x\<bar>\<rfloor> = - (k + 1)"
    using xl xu x(1) floor_log_eq_powr_iff [of "\<bar>x\<bar>" 2 "- (k + 1)"] unfolding q by simp
  moreover have "float_exponent x = - int c"
    using False by (simp add: float_exponent_def c_def m_def z_def)
  ultimately show ?thesis using ck by simp
qed

lemma float_round_at:
  assumes "pow2 e \<le> \<bar>x\<bar>" and "\<bar>x\<bar> < pow2 (e + 1)" and "emin \<le> e"
  shows "float_round t emin x = of_int (round_to_even (x / pow2 (e - t))) * pow2 (e - t)"
proof -
  have "0 < pow2 e" by (simp add: pow2_powr)
  then have x: "x \<noteq> 0" "0 < \<bar>x\<bar>" using assms(1) by auto
  have "\<lfloor>log 2 \<bar>x\<bar>\<rfloor> = e"
    using assms(1,2) x by (simp add: floor_log_eq_powr_iff pow2_powr)
  then have "float_exponent x = e"
    using x(1) by (simp add: float_exponent_log)
  then show ?thesis
    using x assms(3) by (simp add: float_round_def max_def)
qed

lemmas float32_at = float_round_at [where t = 23 and emin = "- 126", folded float32_def]


lemma float32_0: "float32 0 = 0"
  by (simp add: float32_def float_round_def)

lemma EPSILON_value: "EPSILON = 8589935 / 2 ^ 33"
  unfolding EPSILON_def
  by (subst float32_at [where e = "- 10"]) (simp_all add: pow2_def round_to_even_def)

lemma EPSILON_pos: "0 < EPSILON"
  by (simp add: EPSILON_value)

text \<open>Small whole numbers and the quotients used below, as \<^verbatim>\<open>float\<close> values.\<close>

lemma float32_whole:
  "float32 1 = 1" "float32 3 = 3" "float32 4 = 4" "float32 6 = 6" "float32 20 = 20"
  "float32 22 = 22" "float32 26 = 26" "float32 60 = 60" "float32 100 = 100"
  "float32 104 = 104" "float32 130 = 130" "float32 156 = 156" "float32 600 = 600"
  "float32 640 = 640" "float32 720 = 720" "float32 768 = 768" "float32 800 = 800"
  "float32 960 = 960" "float32 1000 = 1000" "float32 1001 = 1001" "float32 1024 = 1024"
  "float32 1025 = 1025" "float32 1026 = 1026" "float32 321 = 321" "float32 347 = 347"
  "float32 373 = 373" "float32 385 = 385" "float32 399 = 399" "float32 402 = 402"
                      apply (subst float32_at [where e = 0]; simp add: pow2_def round_to_even_def)
                      apply (subst float32_at [where e = 1]; simp add: pow2_def round_to_even_def)
                      apply (subst float32_at [where e = 2]; simp add: pow2_def round_to_even_def)
                      apply (subst float32_at [where e = 2]; simp add: pow2_def round_to_even_def)
                      apply (subst float32_at [where e = 4]; simp add: pow2_def round_to_even_def)
                      apply (subst float32_at [where e = 4]; simp add: pow2_def round_to_even_def)
                      apply (subst float32_at [where e = 4]; simp add: pow2_def round_to_even_def)
                      apply (subst float32_at [where e = 5]; simp add: pow2_def round_to_even_def)
                      apply (subst float32_at [where e = 6]; simp add: pow2_def round_to_even_def)
                      apply (subst float32_at [where e = 6]; simp add: pow2_def round_to_even_def)
                      apply (subst float32_at [where e = 7]; simp add: pow2_def round_to_even_def)
                      apply (subst float32_at [where e = 7]; simp add: pow2_def round_to_even_def)
                      apply (subst float32_at [where e = 9]; simp add: pow2_def round_to_even_def)
                      apply (subst float32_at [where e = 9]; simp add: pow2_def round_to_even_def)
                      apply (subst float32_at [where e = 9]; simp add: pow2_def round_to_even_def)
                      apply (subst float32_at [where e = 9]; simp add: pow2_def round_to_even_def)
                      apply (subst float32_at [where e = 9]; simp add: pow2_def round_to_even_def)
                      apply (subst float32_at [where e = 9]; simp add: pow2_def round_to_even_def)
                      apply (subst float32_at [where e = 9]; simp add: pow2_def round_to_even_def)
                      apply (subst float32_at [where e = 9]; simp add: pow2_def round_to_even_def)
                      apply (subst float32_at [where e = 10]; simp add: pow2_def round_to_even_def)
                      apply (subst float32_at [where e = 10]; simp add: pow2_def round_to_even_def)
                      apply (subst float32_at [where e = 10]; simp add: pow2_def round_to_even_def)
       apply (subst float32_at [where e = 8]; simp add: pow2_def round_to_even_def)
       apply (subst float32_at [where e = 8]; simp add: pow2_def round_to_even_def)
       apply (subst float32_at [where e = 8]; simp add: pow2_def round_to_even_def)
       apply (subst float32_at [where e = 8]; simp add: pow2_def round_to_even_def)
       apply (subst float32_at [where e = 8]; simp add: pow2_def round_to_even_def)
       apply (subst float32_at [where e = 8]; simp add: pow2_def round_to_even_def)
  done

lemma float32_minus_1: "float32 (- 1) = - 1"
  by (subst float32_at [where e = 0]) (simp_all add: pow2_def round_to_even_def)



lemma posnat_value: "0 < n \<Longrightarrow> Rep_posnat (posnat_of n) = n"
  by (simp add: posnat_of.rep_eq)

lemma screen_size_pos: "0 < screenWidth h" "0 < screenHeight h"
  using Rep_posnat [of "ScreenSize_width h"] Rep_posnat [of "ScreenSize_height h"]
  by (simp_all add: screenWidth_def screenHeight_def)

subsection \<open>What each operation leaves alone\<close>

lemma UpdateLinks_keeps:
  "selectedLink (UpdateLinks h s) = selectedLink s"
  "events (UpdateLinks h s) = events s"
  "soundsPlayed (UpdateLinks h s) = soundsPlayed s"
  "attributes (UpdateLinks h s) = attributes s"
  "fadeTime (UpdateLinks h s) = fadeTime s"
  "timeScale (UpdateLinks h s) = timeScale s"
  "vertexLocks (UpdateLinks h s) = vertexLocks s"
  "vertexBuffers (UpdateLinks h s) = vertexBuffers s"
  "indexBuffers (UpdateLinks h s) = indexBuffers s"
  "backVertexBuffer (UpdateLinks h s) = backVertexBuffer s"
  "backIndexBuffer (UpdateLinks h s) = backIndexBuffer s"
  "soundService (UpdateLinks h s) = soundService s"
  "dialogText (UpdateLinks h s) = dialogText s"
  "formattedDialogText (UpdateLinks h s) = formattedDialogText s"
  "mainFont (UpdateLinks h s) = mainFont s"
  "subFont (UpdateLinks h s) = subFont s"
  "fontScale (UpdateLinks h s) = fontScale s"
  "lineHeight (UpdateLinks h s) = lineHeight s"
  "screenScale_x (UpdateLinks h s) = screenScale_x s"
  "screenScale_y (UpdateLinks h s) = screenScale_y s"
  "textureLines (UpdateLinks h s) = textureLines s"
  by (simp_all add: UpdateLinks_def Let_def split: option.splits)

lemma UpdateDialogText_keeps:
  "selectedLink (UpdateDialogText h s) = selectedLink s"
  "events (UpdateDialogText h s) = events s"
  "soundsPlayed (UpdateDialogText h s) = soundsPlayed s"
  "attributes (UpdateDialogText h s) = attributes s"
  "fadeTime (UpdateDialogText h s) = fadeTime s"
  "timeScale (UpdateDialogText h s) = timeScale s"
  "vertexLocks (UpdateDialogText h s) = vertexLocks s"
  "vertexBuffers (UpdateDialogText h s) = vertexBuffers s"
  "indexBuffers (UpdateDialogText h s) = indexBuffers s"
  "backVertexBuffer (UpdateDialogText h s) = backVertexBuffer s"
  "backIndexBuffer (UpdateDialogText h s) = backIndexBuffer s"
  "soundService (UpdateDialogText h s) = soundService s"
  "links (UpdateDialogText h s) = links s"
  "formattedLinks (UpdateDialogText h s) = formattedLinks s"
  "mainFont (UpdateDialogText h s) = mainFont s"
  "subFont (UpdateDialogText h s) = subFont s"
  "fontScale (UpdateDialogText h s) = fontScale s"
  "lineHeight (UpdateDialogText h s) = lineHeight s"
  "screenScale_x (UpdateDialogText h s) = screenScale_x s"
  "screenScale_y (UpdateDialogText h s) = screenScale_y s"
  "textureLines (UpdateDialogText h s) = textureLines s"
  by (simp_all add: UpdateDialogText_def Let_def split: option.splits)

lemma AttributeChanged_keeps:
  "selectedLink (AttributeChanged h n v s) = selectedLink s"
  "events (AttributeChanged h n v s) = events s"
  "soundsPlayed (AttributeChanged h n v s) = soundsPlayed s"
  "attributes (AttributeChanged h n v s) = attributes s"
  "fadeTime (AttributeChanged h n v s) = fadeTime s"
  "timeScale (AttributeChanged h n v s) = timeScale s"
  "vertexLocks (AttributeChanged h n v s) = vertexLocks s"
  "vertexBuffers (AttributeChanged h n v s) = vertexBuffers s"
  "indexBuffers (AttributeChanged h n v s) = indexBuffers s"
  "backVertexBuffer (AttributeChanged h n v s) = backVertexBuffer s"
  "backIndexBuffer (AttributeChanged h n v s) = backIndexBuffer s"
  "soundService (AttributeChanged h n v s) = soundService s"
  "mainFont (AttributeChanged h n v s) = mainFont s"
  "subFont (AttributeChanged h n v s) = subFont s"
  "fontScale (AttributeChanged h n v s) = fontScale s"
  "lineHeight (AttributeChanged h n v s) = lineHeight s"
  "screenScale_x (AttributeChanged h n v s) = screenScale_x s"
  "screenScale_y (AttributeChanged h n v s) = screenScale_y s"
  "textureLines (AttributeChanged h n v s) = textureLines s"
  by (simp_all add: AttributeChanged_def UpdateHeadModel_def Let_def UpdateLinks_keeps UpdateDialogText_keeps)

lemma script_assign_keeps:
  "selectedLink (script_assign h s c) = selectedLink s"
  "events (script_assign h s c) = events s"
  "soundsPlayed (script_assign h s c) = soundsPlayed s"
  "attributes (script_assign h s c) = newAttributes c"
  "fadeTime (script_assign h s c) = fadeTime s"
  "timeScale (script_assign h s c) = timeScale s"
  "vertexLocks (script_assign h s c) = vertexLocks s"
  "vertexBuffers (script_assign h s c) = vertexBuffers s"
  "indexBuffers (script_assign h s c) = indexBuffers s"
  "backVertexBuffer (script_assign h s c) = backVertexBuffer s"
  "backIndexBuffer (script_assign h s c) = backIndexBuffer s"
  "soundService (script_assign h s c) = soundService s"
  "mainFont (script_assign h s c) = mainFont s"
  "subFont (script_assign h s c) = subFont s"
  "fontScale (script_assign h s c) = fontScale s"
  "lineHeight (script_assign h s c) = lineHeight s"
  "screenScale_x (script_assign h s c) = screenScale_x s"
  "screenScale_y (script_assign h s c) = screenScale_y s"
  "textureLines (script_assign h s c) = textureLines s"
  by (simp_all add: script_assign_def AttributeChanged_keeps)

lemma assignments_keep:
  "selectedLink (foldl (script_assign h) s cs) = selectedLink s"
  "events (foldl (script_assign h) s cs) = events s"
  "soundsPlayed (foldl (script_assign h) s cs) = soundsPlayed s"
  "fadeTime (foldl (script_assign h) s cs) = fadeTime s"
  "timeScale (foldl (script_assign h) s cs) = timeScale s"
  "vertexLocks (foldl (script_assign h) s cs) = vertexLocks s"
  "vertexBuffers (foldl (script_assign h) s cs) = vertexBuffers s"
  "indexBuffers (foldl (script_assign h) s cs) = indexBuffers s"
  "backVertexBuffer (foldl (script_assign h) s cs) = backVertexBuffer s"
  "backIndexBuffer (foldl (script_assign h) s cs) = backIndexBuffer s"
  "soundService (foldl (script_assign h) s cs) = soundService s"
  "mainFont (foldl (script_assign h) s cs) = mainFont s"
  "subFont (foldl (script_assign h) s cs) = subFont s"
  "fontScale (foldl (script_assign h) s cs) = fontScale s"
  "lineHeight (foldl (script_assign h) s cs) = lineHeight s"
  "screenScale_x (foldl (script_assign h) s cs) = screenScale_x s"
  "screenScale_y (foldl (script_assign h) s cs) = screenScale_y s"
  "textureLines (foldl (script_assign h) s cs) = textureLines s"
  by (induction cs arbitrary: s; simp add: script_assign_keeps)+

lemma core_Event_keeps:
  "selectedLink (core_Event h name s) = selectedLink s"
  "events (core_Event h name s) = events s @ [name]"
  "soundsPlayed (core_Event h name s) = soundsPlayed s"
  "fadeTime (core_Event h name s) = fadeTime s"
  "timeScale (core_Event h name s) = timeScale s"
  "vertexLocks (core_Event h name s) = vertexLocks s"
  "vertexBuffers (core_Event h name s) = vertexBuffers s"
  "indexBuffers (core_Event h name s) = indexBuffers s"
  "backVertexBuffer (core_Event h name s) = backVertexBuffer s"
  "backIndexBuffer (core_Event h name s) = backIndexBuffer s"
  "soundService (core_Event h name s) = soundService s"
  "mainFont (core_Event h name s) = mainFont s"
  "subFont (core_Event h name s) = subFont s"
  "fontScale (core_Event h name s) = fontScale s"
  "lineHeight (core_Event h name s) = lineHeight s"
  "screenScale_x (core_Event h name s) = screenScale_x s"
  "screenScale_y (core_Event h name s) = screenScale_y s"
  "textureLines (core_Event h name s) = textureLines s"
  by (simp_all add: core_Event_def assignments_keep)

lemma core_Event_silent:
  "DialogEventHandler h (attributes s) = [] \<Longrightarrow>
   core_Event h name s = s\<lparr>events := events s @ [name]\<rparr>"
  by (simp add: core_Event_def)

lemma PlayTick_keeps:
  "selectedLink (PlayTick s) = selectedLink s"
  "events (PlayTick s) = events s"
  "attributes (PlayTick s) = attributes s"
  "links (PlayTick s) = links s"
  "fadeTime (PlayTick s) = fadeTime s"
  "timeScale (PlayTick s) = timeScale s"
  "backNeedsUpdate (PlayTick s) = backNeedsUpdate s"
  "vertexLocks (PlayTick s) = vertexLocks s"
  "vertexBuffers (PlayTick s) = vertexBuffers s"
  "indexBuffers (PlayTick s) = indexBuffers s"
  "backVertexBuffer (PlayTick s) = backVertexBuffer s"
  "backIndexBuffer (PlayTick s) = backIndexBuffer s"
  "soundService (PlayTick s) = soundService s"
  "formattedLinks (PlayTick s) = formattedLinks s"
  "formattedDialogText (PlayTick s) = formattedDialogText s"
  "screenScale_x (PlayTick s) = screenScale_x s"
  "screenScale_y (PlayTick s) = screenScale_y s"
  "lineHeight (PlayTick s) = lineHeight s"
  by (simp_all add: PlayTick_def)

lemma move_selection_keeps:
  "events (move_selection h s) = events s"
  "attributes (move_selection h s) = attributes s"
  "links (move_selection h s) = links s"
  "fadeTime (move_selection h s) = fadeTime s"
  "timeScale (move_selection h s) = timeScale s"
  "backNeedsUpdate (move_selection h s) = backNeedsUpdate s"
  "vertexLocks (move_selection h s) = vertexLocks s"
  "vertexBuffers (move_selection h s) = vertexBuffers s"
  "indexBuffers (move_selection h s) = indexBuffers s"
  "backVertexBuffer (move_selection h s) = backVertexBuffer s"
  "backIndexBuffer (move_selection h s) = backIndexBuffer s"
  "soundService (move_selection h s) = soundService s"
  "formattedLinks (move_selection h s) = formattedLinks s"
  "formattedDialogText (move_selection h s) = formattedDialogText s"
  "screenScale_x (move_selection h s) = screenScale_x s"
  "screenScale_y (move_selection h s) = screenScale_y s"
  "lineHeight (move_selection h s) = lineHeight s"
  by (simp_all add: move_selection_def Let_def PlayTick_keeps)

lemma move_selection_idle:
  "\<not> bDoUp h \<Longrightarrow> \<not> bDoDown h \<Longrightarrow> move_selection h s = s"
  by (simp add: move_selection_def)

lemma pressing_action:
  "bDoAction (pressing ''DlgAction'' h)" "\<not> bDoUp (pressing ''DlgAction'' h)"
  "\<not> bDoDown (pressing ''DlgAction'' h)"
  by (simp_all add: pressing_def bDoAction_def bDoUp_def bDoDown_def)

lemma pressing_down:
  "bDoDown (pressing ''DlgDown'' h)" "\<not> bDoUp (pressing ''DlgDown'' h)"
  "\<not> bDoAction (pressing ''DlgDown'' h)"
  by (simp_all add: pressing_def bDoAction_def bDoUp_def bDoDown_def)

lemma pressing_up:
  "bDoUp (pressing ''DlgUp'' h)" "\<not> bDoDown (pressing ''DlgUp'' h)"
  "\<not> bDoAction (pressing ''DlgUp'' h)"
  by (simp_all add: pressing_def bDoAction_def bDoUp_def bDoDown_def)
lemma GetAttributeClass_Nil: "GetAttributeClass [] i = None"
  by (simp add: GetAttributeClass_def to_size_t_def not_less)

subsection \<open>Moving the selection\<close>

text \<open>
  While the list of links is not empty and the selection is inside it, moving up and down
  keeps it inside; at either end the move does nothing at all, so no tick is played.
\<close>

lemma selection_stays_in_range:
  assumes "0 \<le> selectedLink s" and "selectedLink s < int (length (links s))"
    and "length (links s) < 2 ^ 31"
  shows "0 \<le> selectedLink (move_selection h s)
         \<and> selectedLink (move_selection h s) < int (length (links s))"
proof -
  have n: "(int (length (links s)) - 1) mod 2 ^ 64 = int (length (links s)) - 1"
    using assms by (intro mod_pos_pos_trivial) auto
  show ?thesis
    using assms n
    by (auto simp add: move_selection_def Let_def PlayTick_keeps to_size_t_def to_int32_def)
qed

lemma up_at_first_link:
  assumes "selectedLink s = 0" and "\<not> bDoDown h"
  shows "move_selection h s = s"
  using assms by (simp add: move_selection_def)

lemma down_at_last_link:
  assumes "selectedLink s = int (length (links s)) - 1" and "links s \<noteq> []" and "\<not> bDoUp h"
    and "length (links s) < 2 ^ 31"
  shows "move_selection h s = s"
proof -
  have n: "(int (length (links s)) - 1) mod 2 ^ 64 = int (length (links s)) - 1"
    using assms by (intro mod_pos_pos_trivial) auto
  show ?thesis
    using assms n by (auto simp add: move_selection_def to_size_t_def)
qed

text \<open>
  Claim C2: for every list of links, the empty one included, no sequence of up and down
  moves takes the selection out of the list, and a move that cannot change the selection
  plays no tick. The lemmas above show this for every list that is not empty. On the empty
  list the code departs from it: the guard of the downward move,
  \<^verbatim>\<open>selectedLink_ < links_.size() - 1\<close>, is evaluated in \<^verbatim>\<open>size_t\<close>, where \<open>0 - 1\<close> is
  \<open>2^64 - 1\<close>, so with the selection at 0 one activation of \<^verbatim>\<open>DlgDown\<close> plays the tick
  and moves the selection to 1, outside the list.
\<close>

theorem down_on_empty_list:
  "links blank_dialog = [] \<and> selectedLink blank_dialog = 0
   \<and> selectedLink (ProcessControls (pressing ''DlgDown'' quiet_host) blank_dialog) = 1
   \<and> soundsPlayed (ProcessControls (pressing ''DlgDown'' quiet_host) blank_dialog)
      = [TICK_SOUND]"
  by (simp add: ProcessControls_def move_selection_def pressing_down PlayTick_def
      blank_dialog_def to_size_t_def to_int32_def)

subsection \<open>Confirming a choice\<close>

text \<open>
  Claim C4. When a confirm control is active and the \<open>Links\<close> attribute has an entry at the
  selected position (the position after the moves of the same frame), \<open>ProcessControls\<close>
  writes that entry's \<open>go\<close> attribute to \<open>CurrentNode\<close>, sets the selection to 0 and then
  raises \<^verbatim>\<open>DialogEvent\<close>: the result is the event raised on the state so prepared. The
  selection is 0 afterwards, the event is logged once, and \<open>CurrentNode\<close> still holds the
  target unless the script's handler assigns attributes itself.
\<close>

theorem confirm_navigates:
  assumes "bDoAction h"
    and "Links (attributes s) = Some links_attr"
    and "GetAttributeClass links_attr (selectedLink (move_selection h s)) = Some selected_attr"
  shows "ProcessControls h s =
           core_Event h ''DialogEvent''
             ((PlayTick (move_selection h s))
                \<lparr>attributes := (attributes s)\<lparr>CurrentNode := go selected_attr\<rparr>,
                 selectedLink := 0\<rparr>)
         \<and> selectedLink (ProcessControls h s) = 0
         \<and> events (ProcessControls h s) = events s @ [''DialogEvent'']
         \<and> (DialogEventHandler h ((attributes s)\<lparr>CurrentNode := go selected_attr\<rparr>) = []
              \<longrightarrow> CurrentNode (attributes (ProcessControls h s)) = go selected_attr)"
proof -
  let ?mid = "(PlayTick (move_selection h s))
                \<lparr>attributes := (attributes s)\<lparr>CurrentNode := go selected_attr\<rparr>,
                 selectedLink := 0\<rparr>"
  have run: "ProcessControls h s = core_Event h ''DialogEvent'' ?mid"
    using assms by (simp add: ProcessControls_def Let_def PlayTick_keeps move_selection_keeps)
  have sel: "selectedLink (core_Event h ''DialogEvent'' ?mid) = 0"
    by (simp add: core_Event_keeps)
  have ev: "events (core_Event h ''DialogEvent'' ?mid) = events s @ [''DialogEvent'']"
    by (simp add: core_Event_keeps PlayTick_keeps move_selection_keeps)
  have node: "CurrentNode (attributes (core_Event h ''DialogEvent'' ?mid)) = go selected_attr"
    if "DialogEventHandler h ((attributes s)\<lparr>CurrentNode := go selected_attr\<rparr>) = []"
    using that by (simp add: core_Event_silent)
  show ?thesis using run sel ev node by simp
qed

text \<open>
  The instance of the spec: links A, B, C with the selection on C (index 2).
\<close>

theorem confirm_navigates_witness:
  "bDoAction (pressing ''DlgAction'' quiet_host)
   \<and> Links (attributes abc_dialog) = Some three_links
   \<and> GetAttributeClass three_links
        (selectedLink (move_selection (pressing ''DlgAction'' quiet_host) abc_dialog))
      = Some \<lparr>link_value = ''C'', go = Some ''node_c''\<rparr>
   \<and> DialogEventHandler (pressing ''DlgAction'' quiet_host)
        ((attributes abc_dialog)\<lparr>CurrentNode := Some ''node_c''\<rparr>) = []
   \<and> selectedLink abc_dialog = 2
   \<and> selectedLink (ProcessControls (pressing ''DlgAction'' quiet_host) abc_dialog) = 0
   \<and> events (ProcessControls (pressing ''DlgAction'' quiet_host) abc_dialog) = [''DialogEvent'']
   \<and> CurrentNode (attributes (ProcessControls (pressing ''DlgAction'' quiet_host) abc_dialog))
      = Some ''node_c''"
proof -
  let ?h = "pressing ''DlgAction'' quiet_host"
  have a: "bDoAction ?h" by (rule pressing_action)
  have l: "Links (attributes abc_dialog) = Some three_links"
    by (simp add: abc_dialog_def)
  have m: "move_selection ?h abc_dialog = abc_dialog"
    by (simp add: move_selection_idle pressing_action)
  have g: "GetAttributeClass three_links (selectedLink (move_selection ?h abc_dialog))
           = Some \<lparr>link_value = ''C'', go = Some ''node_c''\<rparr>"
    unfolding m by (simp add: abc_dialog_def GetAttributeClass_def three_links_def to_size_t_def)
  have q: "DialogEventHandler ?h ((attributes abc_dialog)\<lparr>CurrentNode := Some ''node_c''\<rparr>) = []"
    by (simp add: pressing_def quiet_host_def)
  have e: "events abc_dialog = []" "selectedLink abc_dialog = 2"
    by (simp_all add: abc_dialog_def blank_dialog_def)
  note t = confirm_navigates [OF a l g]
  have s0: "selectedLink (ProcessControls ?h abc_dialog) = 0"
    by (rule conjunct1 [OF conjunct2 [OF t]])
  have ev: "events (ProcessControls ?h abc_dialog) = events abc_dialog @ [''DialogEvent'']"
    by (rule conjunct1 [OF conjunct2 [OF conjunct2 [OF t]]])
  have nd: "CurrentNode (attributes (ProcessControls ?h abc_dialog)) = Some ''node_c''"
    using conjunct2 [OF conjunct2 [OF conjunct2 [OF t]]] q by simp
  show ?thesis
    using a l g q e s0 ev nd by simp
qed

text \<open>
  Claim C6 as stated (confirming on an empty list is silent) fails: \<open>PlayTick\<close> is the first
  statement of the confirm branch, before the \<open>Links\<close> attribute is looked at.
\<close>

theorem confirm_without_links_ticks:
  "links blank_dialog = [] \<and> Links (attributes blank_dialog) = None
   \<and> soundsPlayed blank_dialog = []
   \<and> soundsPlayed (ProcessControls (pressing ''DlgAction'' quiet_host) blank_dialog)
      = [TICK_SOUND]"
  by (simp add: ProcessControls_def move_selection_idle pressing_action PlayTick_def
      blank_dialog_def no_attributes_def)

text \<open>
  Claim C6, amended. When only a confirm control is active and there is no \<open>Links\<close>
  attribute, or it has no entries, \<open>ProcessControls\<close> changes nothing but the sound log:
  the selection, \<open>CurrentNode\<close> and the event log stay as they are, and the tick sound is
  played if a sound service is present.
\<close>

theorem confirm_without_links:
  assumes "bDoAction h" and "\<not> bDoUp h" and "\<not> bDoDown h"
    and "Links (attributes s) = None \<or> Links (attributes s) = Some []"
  shows "ProcessControls h s =
           s\<lparr>soundsPlayed :=
                (if soundService s then soundsPlayed s @ [TICK_SOUND] else soundsPlayed s)\<rparr>"
  using assms
  by (auto simp add: ProcessControls_def move_selection_idle PlayTick_def
      GetAttributeClass_Nil)

theorem confirm_without_links_witness:
  "bDoAction (pressing ''DlgAction'' quiet_host) \<and> \<not> bDoUp (pressing ''DlgAction'' quiet_host)
   \<and> \<not> bDoDown (pressing ''DlgAction'' quiet_host)
   \<and> Links (attributes blank_dialog) = None
   \<and> selectedLink (ProcessControls (pressing ''DlgAction'' quiet_host) blank_dialog) = 0
   \<and> events (ProcessControls (pressing ''DlgAction'' quiet_host) blank_dialog) = []
   \<and> CurrentNode (attributes (ProcessControls (pressing ''DlgAction'' quiet_host) blank_dialog))
      = None"
proof -
  let ?h = "pressing ''DlgAction'' quiet_host"
  have l: "Links (attributes blank_dialog) = None \<or> Links (attributes blank_dialog) = Some []"
    by (simp add: blank_dialog_def no_attributes_def)
  show ?thesis
    using confirm_without_links [OF pressing_action(1) pressing_action(2) pressing_action(3) l,
        of quiet_host]
    by (simp add: pressing_action blank_dialog_def no_attributes_def)
qed

subsection \<open>Writing quads into the vertex buffer\<close>

lemma write_vertices_splice:
  assumes "length vs = 4" and "vi + 4 \<le> length pV"
  shows "write_vertices (pV, vi) vs = (take vi pV @ vs @ drop (vi + 4) pV, vi + 4)"
proof -
  obtain a b c d where vs: "vs = [a, b, c, d]"
    using assms(1) by (auto simp add: length_Suc_conv numeral_eq_Suc)
  have "pV[vi := a, vi + 1 := b, vi + 2 := c, vi + 3 := d]
        = take vi pV @ [a, b, c, d] @ drop (vi + 4) pV"
    using assms(2)
    by (auto simp add: list_eq_iff_nth_eq nth_append nth_list_update nth_Cons' min_def)
  then show ?thesis by (simp add: write_vertices_def vs)
qed

lemma foldl_write_vertices:
  assumes "\<forall>i \<in> set js. length (f i) = 4" and "vi + 4 * length js \<le> length pV"
  shows "foldl (\<lambda>b i. write_vertices b (f i)) (pV, vi) js
         = (take vi pV @ concat (map f js) @ drop (vi + 4 * length js) pV, vi + 4 * length js)"
  using assms
proof (induction js arbitrary: pV vi)
  case Nil
  then show ?case by simp
next
  case (Cons j js)
  let ?pV = "take vi pV @ f j @ drop (vi + 4) pV"
  have len: "length (f j) = 4" using Cons.prems by simp
  have w: "write_vertices (pV, vi) (f j) = (?pV, vi + 4)"
    using Cons.prems len by (intro write_vertices_splice) auto
  have l: "length ?pV = length pV" using Cons.prems len by simp
  have ih: "foldl (\<lambda>b i. write_vertices b (f i)) (?pV, vi + 4) js
            = (take (vi + 4) ?pV @ concat (map f js) @ drop (vi + 4 + 4 * length js) ?pV,
               vi + 4 + 4 * length js)"
    using Cons.prems l by (intro Cons.IH) auto
  have t: "take (vi + 4) ?pV = take vi pV @ f j"
    using Cons.prems len by simp
  have d: "drop (vi + 4 + 4 * length js) ?pV = drop (vi + 4 + 4 * length js) pV"
    using Cons.prems len by (simp add: ac_simps)
  have e: "vi + 4 * length (j # js) = vi + 4 + 4 * length js" by simp
  have "foldl (\<lambda>b i. write_vertices b (f i)) (pV, vi) (j # js)
        = foldl (\<lambda>b i. write_vertices b (f i)) (?pV, vi + 4) js"
    by (simp add: w)
  also have "\<dots> = (take vi pV @ f j @ concat (map f js) @ drop (vi + 4 + 4 * length js) pV,
                    vi + 4 + 4 * length js)"
    unfolding ih t d by simp
  finally show ?case unfolding e by simp
qed



lemma SPRITE_COUNT_17: "SPRITE_COUNT = 17"
  by (simp add: SPRITE_COUNT_def SPRITE_DATA_def DIALOG_MAX_LINES_def)

lemma createSpriteMesh_length: "length (createSpriteMesh a b sp) = 4"
  by (simp add: createSpriteMesh_def)

lemma panel_sprites_length: "length (panel_sprites s) = 17"
  by (simp add: panel_sprites_def DIALOG_MAX_LINES_def)

lemma UpdateBackBuffers_writes:
  "fst (foldl write_vertices (vertexBuffers s ! backVertexBuffer s, 0)
          (map (createSpriteMesh (screenScale_x s) (screenScale_y s)) (panel_sprites s)))
   = vertexBuffers (UpdateBackBuffers s) ! backVertexBuffer s"
  if "backVertexBuffer s < length (vertexBuffers s)"
  using that
  by (simp add: UpdateBackBuffers_def panel_sprites_def Let_def foldl_map)

lemma UpdateBackBuffers_buffer:
  assumes "backVertexBuffer s < length (vertexBuffers s)"
    and "68 \<le> length (vertexBuffers s ! backVertexBuffer s)"
  shows "vertexBuffers (UpdateBackBuffers s) ! backVertexBuffer s
         = concat (map (createSpriteMesh (screenScale_x s) (screenScale_y s)) (panel_sprites s))
           @ drop 68 (vertexBuffers s ! backVertexBuffer s)"
proof -
  let ?qs = "map (createSpriteMesh (screenScale_x s) (screenScale_y s)) (panel_sprites s)"
  let ?pV = "vertexBuffers s ! backVertexBuffer s"
  have q: "\<forall>i \<in> set ?qs. length ((\<lambda>q. q) i) = 4"
    by (auto simp add: createSpriteMesh_length)
  have n: "0 + 4 * length ?qs \<le> length ?pV"
    using assms(2) by (simp add: panel_sprites_length)
  have "foldl (\<lambda>b i. write_vertices b ((\<lambda>q. q) i)) (?pV, 0) ?qs
        = (take 0 ?pV @ concat (map (\<lambda>q. q) ?qs) @ drop (0 + 4 * length ?qs) ?pV,
           0 + 4 * length ?qs)"
    using q n by (rule foldl_write_vertices)
  then have "fst (foldl write_vertices (?pV, 0) ?qs) = concat ?qs @ drop 68 ?pV"
    by (simp add: panel_sprites_length)
  then show ?thesis
    using UpdateBackBuffers_writes [OF assms(1)] by simp
qed




lemma fill_step_length:
  "length (pI[a := x0, b := x1, c := x2, d := x3, e := x4, f := x5]) = length pI"
  by simp

lemma FillIndexBuffer_length: "length (FillIndexBuffer pI m) = length pI"
  unfolding FillIndexBuffer_def
  by (induction m) simp_all



subsection \<open>What the remaining operations leave alone\<close>

lemma Unfade_keeps:
  "selectedLink (Unfade h s) = selectedLink s"
  "events (Unfade h s) = events s"
  "soundsPlayed (Unfade h s) = soundsPlayed s"
  "attributes (Unfade h s) = attributes s"
  "vertexLocks (Unfade h s) = vertexLocks s"
  "vertexBuffers (Unfade h s) = vertexBuffers s"
  "indexBuffers (Unfade h s) = indexBuffers s"
  "backVertexBuffer (Unfade h s) = backVertexBuffer s"
  "backIndexBuffer (Unfade h s) = backIndexBuffer s"
  "soundService (Unfade h s) = soundService s"
  "links (Unfade h s) = links s"
  "formattedLinks (Unfade h s) = formattedLinks s"
  "dialogText (Unfade h s) = dialogText s"
  "formattedDialogText (Unfade h s) = formattedDialogText s"
  "mainFont (Unfade h s) = mainFont s"
  "subFont (Unfade h s) = subFont s"
  "fontScale (Unfade h s) = fontScale s"
  "lineHeight (Unfade h s) = lineHeight s"
  "screenScale_x (Unfade h s) = screenScale_x s"
  "screenScale_y (Unfade h s) = screenScale_y s"
  "textureLines (Unfade h s) = textureLines s"
  "backNeedsUpdate (Unfade h s) = backNeedsUpdate s"
  by (simp_all add: Unfade_def Let_def)

lemma start_greeting_keeps:
  "selectedLink (start_greeting h s) = selectedLink s"
  "events (start_greeting h s) = events s"
  "attributes (start_greeting h s) = attributes s"
  "fadeTime (start_greeting h s) = fadeTime s"
  "timeScale (start_greeting h s) = timeScale s"
  "vertexLocks (start_greeting h s) = vertexLocks s"
  "vertexBuffers (start_greeting h s) = vertexBuffers s"
  "indexBuffers (start_greeting h s) = indexBuffers s"
  "backVertexBuffer (start_greeting h s) = backVertexBuffer s"
  "backIndexBuffer (start_greeting h s) = backIndexBuffer s"
  "soundService (start_greeting h s) = soundService s"
  "links (start_greeting h s) = links s"
  "formattedLinks (start_greeting h s) = formattedLinks s"
  "dialogText (start_greeting h s) = dialogText s"
  "formattedDialogText (start_greeting h s) = formattedDialogText s"
  "mainFont (start_greeting h s) = mainFont s"
  "subFont (start_greeting h s) = subFont s"
  "fontScale (start_greeting h s) = fontScale s"
  "lineHeight (start_greeting h s) = lineHeight s"
  "screenScale_x (start_greeting h s) = screenScale_x s"
  "screenScale_y (start_greeting h s) = screenScale_y s"
  "textureLines (start_greeting h s) = textureLines s"
  "backNeedsUpdate (start_greeting h s) = backNeedsUpdate s"
  by (simp_all add: start_greeting_def Let_def)

lemma stop_greeting_keeps:
  "selectedLink (stop_greeting h s) = selectedLink s"
  "events (stop_greeting h s) = events s"
  "soundsPlayed (stop_greeting h s) = soundsPlayed s"
  "attributes (stop_greeting h s) = attributes s"
  "fadeTime (stop_greeting h s) = fadeTime s"
  "timeScale (stop_greeting h s) = timeScale s"
  "vertexLocks (stop_greeting h s) = vertexLocks s"
  "vertexBuffers (stop_greeting h s) = vertexBuffers s"
  "indexBuffers (stop_greeting h s) = indexBuffers s"
  "backVertexBuffer (stop_greeting h s) = backVertexBuffer s"
  "backIndexBuffer (stop_greeting h s) = backIndexBuffer s"
  "soundService (stop_greeting h s) = soundService s"
  "links (stop_greeting h s) = links s"
  "formattedLinks (stop_greeting h s) = formattedLinks s"
  "dialogText (stop_greeting h s) = dialogText s"
  "formattedDialogText (stop_greeting h s) = formattedDialogText s"
  "mainFont (stop_greeting h s) = mainFont s"
  "subFont (stop_greeting h s) = subFont s"
  "fontScale (stop_greeting h s) = fontScale s"
  "lineHeight (stop_greeting h s) = lineHeight s"
  "screenScale_x (stop_greeting h s) = screenScale_x s"
  "screenScale_y (stop_greeting h s) = screenScale_y s"
  "textureLines (stop_greeting h s) = textureLines s"
  "backNeedsUpdate (stop_greeting h s) = backNeedsUpdate s"
  by (simp_all add: stop_greeting_def)

lemma UpdateScreenSize_keeps:
  "selectedLink (UpdateScreenSize h s) = selectedLink s"
  "events (UpdateScreenSize h s) = events s"
  "soundsPlayed (UpdateScreenSize h s) = soundsPlayed s"
  "attributes (UpdateScreenSize h s) = attributes s"
  "fadeTime (UpdateScreenSize h s) = fadeTime s"
  "timeScale (UpdateScreenSize h s) = timeScale s"
  "vertexLocks (UpdateScreenSize h s) = vertexLocks s"
  "vertexBuffers (UpdateScreenSize h s) = vertexBuffers s"
  "indexBuffers (UpdateScreenSize h s) = indexBuffers s"
  "backVertexBuffer (UpdateScreenSize h s) = backVertexBuffer s"
  "backIndexBuffer (UpdateScreenSize h s) = backIndexBuffer s"
  "soundService (UpdateScreenSize h s) = soundService s"
  "links (UpdateScreenSize h s) = links s"
  "formattedLinks (UpdateScreenSize h s) = formattedLinks s"
  "dialogText (UpdateScreenSize h s) = dialogText s"
  "formattedDialogText (UpdateScreenSize h s) = formattedDialogText s"
  "mainFont (UpdateScreenSize h s) = mainFont s"
  "subFont (UpdateScreenSize h s) = subFont s"
  "textureLines (UpdateScreenSize h s) = textureLines s"
  by (simp_all add: UpdateScreenSize_def Let_def)

lemma UpdateBackBuffers_keeps:
  "selectedLink (UpdateBackBuffers s) = selectedLink s"
  "events (UpdateBackBuffers s) = events s"
  "soundsPlayed (UpdateBackBuffers s) = soundsPlayed s"
  "attributes (UpdateBackBuffers s) = attributes s"
  "fadeTime (UpdateBackBuffers s) = fadeTime s"
  "timeScale (UpdateBackBuffers s) = timeScale s"
  "indexBuffers (UpdateBackBuffers s) = indexBuffers s"
  "backVertexBuffer (UpdateBackBuffers s) = backVertexBuffer s"
  "backIndexBuffer (UpdateBackBuffers s) = backIndexBuffer s"
  "soundService (UpdateBackBuffers s) = soundService s"
  "links (UpdateBackBuffers s) = links s"
  "formattedLinks (UpdateBackBuffers s) = formattedLinks s"
  "dialogText (UpdateBackBuffers s) = dialogText s"
  "formattedDialogText (UpdateBackBuffers s) = formattedDialogText s"
  "mainFont (UpdateBackBuffers s) = mainFont s"
  "subFont (UpdateBackBuffers s) = subFont s"
  "fontScale (UpdateBackBuffers s) = fontScale s"
  "lineHeight (UpdateBackBuffers s) = lineHeight s"
  "screenScale_x (UpdateBackBuffers s) = screenScale_x s"
  "screenScale_y (UpdateBackBuffers s) = screenScale_y s"
  by (simp_all add: UpdateBackBuffers_def Let_def)

lemma ProcessControls_keeps:
  "fadeTime (ProcessControls h s) = fadeTime s"
  "timeScale (ProcessControls h s) = timeScale s"
  "vertexLocks (ProcessControls h s) = vertexLocks s"
  "vertexBuffers (ProcessControls h s) = vertexBuffers s"
  "indexBuffers (ProcessControls h s) = indexBuffers s"
  "backVertexBuffer (ProcessControls h s) = backVertexBuffer s"
  "backIndexBuffer (ProcessControls h s) = backIndexBuffer s"
  "soundService (ProcessControls h s) = soundService s"
  "mainFont (ProcessControls h s) = mainFont s"
  "subFont (ProcessControls h s) = subFont s"
  "fontScale (ProcessControls h s) = fontScale s"
  "lineHeight (ProcessControls h s) = lineHeight s"
  "screenScale_x (ProcessControls h s) = screenScale_x s"
  "screenScale_y (ProcessControls h s) = screenScale_y s"
  "textureLines (ProcessControls h s) = textureLines s"
  by (simp_all add: ProcessControls_def Let_def core_Event_keeps PlayTick_def
      move_selection_def split: option.splits)

lemma UpdateScreenSize_flag:
  "backNeedsUpdate (UpdateScreenSize h s) = (backNeedsUpdate s \<or> scale_moved h s)"
  by (simp add: UpdateScreenSize_def scale_moved_def Let_def)

lemma UpdateScreenSize_settles: "\<not> scale_moved h (UpdateScreenSize h s)"
  using EPSILON_pos by (simp add: UpdateScreenSize_def scale_moved_def Let_def float32_0)

lemma scale_moved_cong:
  assumes "viewportWidth h' = viewportWidth h" and "viewportHeight h' = viewportHeight h"
    and "screenWidth h' = screenWidth h" and "screenHeight h' = screenHeight h"
    and "screenScale_x s' = screenScale_x s" and "screenScale_y s' = screenScale_y s"
  shows "scale_moved h' s' = scale_moved h s"
  using assms by (simp add: scale_moved_def viewport_hScale_def viewport_vScale_def)

lemma UpdateLinks_flag:
  "backNeedsUpdate (UpdateLinks h s)
   = (backNeedsUpdate s \<or> length (formattedLinks (UpdateLinks h s)) \<noteq> length (formattedLinks s))"
  by (simp add: UpdateLinks_def Let_def split: option.splits)

lemma UpdateDialogText_flag:
  "backNeedsUpdate (UpdateDialogText h s)
   = (backNeedsUpdate s
      \<or> length (formattedDialogText (UpdateDialogText h s)) \<noteq> length (formattedDialogText s))"
  by (simp add: UpdateDialogText_def Let_def split: option.splits)

lemma AttributeChanged_flag:
  "backNeedsUpdate (AttributeChanged h n v s)
   = (backNeedsUpdate s \<or> line_counts (AttributeChanged h n v s) \<noteq> line_counts s)"
  by (auto simp add: AttributeChanged_def UpdateHeadModel_def Let_def line_counts_def
      UpdateLinks_flag UpdateDialogText_flag UpdateLinks_keeps UpdateDialogText_keeps)

lemma script_assign_flag:
  "backNeedsUpdate (script_assign h s c)
   = (backNeedsUpdate s \<or> line_counts (script_assign h s c) \<noteq> line_counts s)"
  using AttributeChanged_flag [of h "changedName c" "changedValue c" "s\<lparr>attributes := newAttributes c\<rparr>"]
  by (simp add: script_assign_def line_counts_def)

lemma assignments_flag_mono:
  "backNeedsUpdate s \<Longrightarrow> backNeedsUpdate (foldl (script_assign h) s cs)"
  by (induction cs arbitrary: s) (simp_all add: script_assign_flag)

lemma ProcessControls_flag_mono:
  "backNeedsUpdate s \<Longrightarrow> backNeedsUpdate (ProcessControls h s)"
  by (simp add: ProcessControls_def Let_def core_Event_def assignments_flag_mono
      move_selection_keeps PlayTick_keeps split: option.splits)

lemma ProcessControls_flag_quiet:
  assumes "\<not> bDoAction h \<or> DialogEventHandler h = (\<lambda>a. [])"
  shows "backNeedsUpdate (ProcessControls h s) = backNeedsUpdate s"
    and "line_counts (ProcessControls h s) = line_counts s"
  using assms
  by (auto simp add: ProcessControls_def Let_def core_Event_def line_counts_def
      move_selection_keeps PlayTick_keeps split: option.splits)

lemma Realize_clears: "\<not> backNeedsUpdate (Realize h s)"
  by (simp add: Realize_def Let_def stop_greeting_keeps UpdateBackBuffers_def)

lemma Realize_locks:
  "vertexLocks (Realize h s)
   = vertexLocks s
     + (if backNeedsUpdate (ProcessControls h (UpdateScreenSize h (start_greeting h (Unfade h s))))
        then 1 else 0)"
  by (simp add: Realize_def Let_def stop_greeting_keeps UpdateBackBuffers_def
      ProcessControls_keeps UpdateScreenSize_keeps start_greeting_keeps Unfade_keeps)

lemma Realize_rebuilds:
  assumes "backNeedsUpdate s \<or> scale_moved h s"
  shows "vertexLocks (Realize h s) = vertexLocks s + 1"
proof -
  have "scale_moved h (start_greeting h (Unfade h s)) = scale_moved h s"
    by (simp add: scale_moved_def start_greeting_keeps Unfade_keeps)
  then have "backNeedsUpdate (UpdateScreenSize h (start_greeting h (Unfade h s)))"
    using assms by (simp add: UpdateScreenSize_flag start_greeting_keeps Unfade_keeps)
  then show ?thesis
    by (simp add: Realize_locks ProcessControls_flag_mono)
qed

lemma Realize_rests:
  assumes "\<not> backNeedsUpdate s" and "\<not> scale_moved h s"
    and "\<not> bDoAction h \<or> DialogEventHandler h = (\<lambda>a. [])"
  shows "vertexLocks (Realize h s) = vertexLocks s"
proof -
  have "scale_moved h (start_greeting h (Unfade h s)) = scale_moved h s"
    by (simp add: scale_moved_def start_greeting_keeps Unfade_keeps)
  then have "\<not> backNeedsUpdate (UpdateScreenSize h (start_greeting h (Unfade h s)))"
    using assms by (simp add: UpdateScreenSize_flag start_greeting_keeps Unfade_keeps)
  then show ?thesis
    using assms(3) by (simp add: Realize_locks ProcessControls_flag_quiet)
qed

lemma Realize_settles: "\<not> scale_moved h (Realize h s)"
proof -
  have "scale_moved h (Realize h s)
        = scale_moved h (UpdateScreenSize h (start_greeting h (Unfade h s)))"
    by (simp add: scale_moved_def Realize_def Let_def stop_greeting_keeps
        UpdateBackBuffers_keeps ProcessControls_keeps)
  then show ?thesis by (simp add: UpdateScreenSize_settles)
qed


subsection \<open>When the mesh is rebuilt\<close>

lemma Realize_scale:
  "screenScale_x (Realize h s)
   = (if scale_moved h s then viewport_hScale h else screenScale_x s)"
  "screenScale_y (Realize h s)
   = (if scale_moved h s then viewport_vScale h else screenScale_y s)"
  by (simp_all add: Realize_def Let_def stop_greeting_keeps UpdateBackBuffers_keeps
      ProcessControls_keeps UpdateScreenSize_def scale_moved_def start_greeting_keeps Unfade_keeps)

lemma Realize_line_counts:
  assumes "\<not> bDoAction h \<or> DialogEventHandler h = (\<lambda>a. [])"
  shows "line_counts (Realize h s) = line_counts s"
proof -
  have "line_counts (Realize h s)
        = line_counts (ProcessControls h (UpdateScreenSize h (start_greeting h (Unfade h s))))"
    by (simp add: line_counts_def Realize_def Let_def stop_greeting_keeps UpdateBackBuffers_keeps)
  also have "\<dots> = line_counts (UpdateScreenSize h (start_greeting h (Unfade h s)))"
    using assms by (rule ProcessControls_flag_quiet)
  also have "\<dots> = line_counts s"
    by (simp add: line_counts_def UpdateScreenSize_keeps start_greeting_keeps Unfade_keeps)
  finally show ?thesis .
qed

lemma still_frames:
  assumes "\<forall>h' \<in> set hs. viewportWidth h' = viewportWidth h \<and> viewportHeight h' = viewportHeight h
                           \<and> screenWidth h' = screenWidth h \<and> screenHeight h' = screenHeight h
                           \<and> (\<not> bDoAction h' \<or> DialogEventHandler h' = (\<lambda>a. []))"
    and "\<not> backNeedsUpdate s" and "\<not> scale_moved h s"
  shows "vertexLocks (run s (map Frame hs)) = vertexLocks s
         \<and> \<not> backNeedsUpdate (run s (map Frame hs))
         \<and> line_counts (run s (map Frame hs)) = line_counts s"
  using assms
proof (induction hs arbitrary: s)
  case Nil
  then show ?case by (simp add: run_def)
next
  case (Cons h' hs)
  have same: "viewportWidth h' = viewportWidth h" "viewportHeight h' = viewportHeight h"
    "screenWidth h' = screenWidth h" "screenHeight h' = screenHeight h"
    and quiet: "\<not> bDoAction h' \<or> DialogEventHandler h' = (\<lambda>a. [])"
    using Cons.prems(1) by simp_all
  have m: "\<not> scale_moved h' s"
    using Cons.prems(3) same by (simp add: scale_moved_def viewport_hScale_def viewport_vScale_def)
  have l: "vertexLocks (Realize h' s) = vertexLocks s"
    using Cons.prems(2) m quiet by (rule Realize_rests)
  have c: "line_counts (Realize h' s) = line_counts s"
    using quiet by (rule Realize_line_counts)
  have "\<not> scale_moved h' (Realize h' s)" by (rule Realize_settles)
  then have n: "\<not> scale_moved h (Realize h' s)"
    using same by (simp add: scale_moved_def viewport_hScale_def viewport_vScale_def)
  have "vertexLocks (run (Realize h' s) (map Frame hs)) = vertexLocks (Realize h' s)
        \<and> \<not> backNeedsUpdate (run (Realize h' s) (map Frame hs))
        \<and> line_counts (run (Realize h' s) (map Frame hs)) = line_counts (Realize h' s)"
    using Cons.prems(1) Realize_clears n by (intro Cons.IH) simp_all
  then show ?case
    using l c by (simp add: run_def)
qed

text \<open>
  Claim C1, amended. A frame rebuilds the mesh (one more \<^verbatim>\<open>LockVertexBuffer\<close>) whenever
  \<open>backNeedsUpdate\<close> is set on entry or the scale has moved (\<open>scale_moved\<close>): the scale the
  host shows, which is the \<^verbatim>\<open>float\<close> quotient of viewport size and screen size, differs in
  x or y from the stored scale by more than the \<^verbatim>\<open>float\<close> \<^verbatim>\<open>1e-3f\<close>, the difference being
  rounded to \<^verbatim>\<open>float\<close> before it is compared. The stored scale is the scale of the last
  accepted change and not necessarily that of the previous frame. On a frame in which no confirm control is active,
  or in which the script assigns nothing in response to the event, these are the only
  causes, whatever the up and down controls do to the selection. The flag is clear after
  every frame. An assignment by the script sets the flag exactly when it changes the number
  of wrapped body lines or of wrapped link lines (or the flag was set already). Over
  further frames with the same viewport and screen size and no such assignment, nothing is
  rebuilt after the first frame, which itself rebuilds at most once.
\<close>

theorem rebuild_gating:
  "(backNeedsUpdate s \<or> scale_moved h s \<longrightarrow> vertexLocks (Realize h s) = vertexLocks s + 1)
   \<and> (\<not> backNeedsUpdate s \<and> \<not> scale_moved h s
        \<and> (\<not> bDoAction h \<or> DialogEventHandler h = (\<lambda>a. []))
       \<longrightarrow> vertexLocks (Realize h s) = vertexLocks s)
   \<and> vertexLocks (Realize h s) \<le> vertexLocks s + 1
   \<and> \<not> backNeedsUpdate (Realize h s)
   \<and> backNeedsUpdate (script_assign h s c)
      = (backNeedsUpdate s \<or> line_counts (script_assign h s c) \<noteq> line_counts s)
   \<and> ((\<forall>h' \<in> set hs. viewportWidth h' = viewportWidth h \<and> viewportHeight h' = viewportHeight h
                       \<and> screenWidth h' = screenWidth h \<and> screenHeight h' = screenHeight h
                       \<and> (\<not> bDoAction h' \<or> DialogEventHandler h' = (\<lambda>a. [])))
       \<longrightarrow> vertexLocks (run (Realize h s) (map Frame hs)) = vertexLocks (Realize h s)
           \<and> \<not> backNeedsUpdate (run (Realize h s) (map Frame hs)))"
proof -
  have a: "backNeedsUpdate s \<or> scale_moved h s \<longrightarrow> vertexLocks (Realize h s) = vertexLocks s + 1"
    using Realize_rebuilds by blast
  have b: "\<not> backNeedsUpdate s \<and> \<not> scale_moved h s
           \<and> (\<not> bDoAction h \<or> DialogEventHandler h = (\<lambda>a. []))
           \<longrightarrow> vertexLocks (Realize h s) = vertexLocks s"
    using Realize_rests by blast
  have d: "vertexLocks (Realize h s) \<le> vertexLocks s + 1"
    by (simp add: Realize_locks)
  have e: "vertexLocks (run (Realize h s) (map Frame hs)) = vertexLocks (Realize h s)
           \<and> \<not> backNeedsUpdate (run (Realize h s) (map Frame hs))"
    if "\<forall>h' \<in> set hs. viewportWidth h' = viewportWidth h \<and> viewportHeight h' = viewportHeight h
                       \<and> screenWidth h' = screenWidth h \<and> screenHeight h' = screenHeight h
                       \<and> (\<not> bDoAction h' \<or> DialogEventHandler h' = (\<lambda>a. []))"
    using still_frames [OF that Realize_clears Realize_settles] by simp
  show ?thesis
    using a b d e Realize_clears script_assign_flag by blast
qed

lemma CreateBackBuffers_keeps:
  "backNeedsUpdate (CreateBackBuffers s) = backNeedsUpdate s"
  "screenScale_x (CreateBackBuffers s) = screenScale_x s"
  "screenScale_y (CreateBackBuffers s) = screenScale_y s"
  "vertexLocks (CreateBackBuffers s) = vertexLocks s"
  "formattedLinks (CreateBackBuffers s) = formattedLinks s"
  "formattedDialogText (CreateBackBuffers s) = formattedDialogText s"
  "fadeTime (CreateBackBuffers s) = fadeTime s"
  "timeScale (CreateBackBuffers s) = timeScale s"
  "lineHeight (CreateBackBuffers s) = lineHeight s"
  "selectedLink (CreateBackBuffers s) = selectedLink s"
  by (simp_all add: CreateBackBuffers_def Let_def)

lemma Init_scale:
  "backNeedsUpdate (Init h s) = (backNeedsUpdate s \<or> scale_moved h s)"
  "screenScale_x (Init h s)
   = (if scale_moved h s then viewport_hScale h else screenScale_x s)"
  "screenScale_y (Init h s)
   = (if scale_moved h s then viewport_vScale h else screenScale_y s)"
  "vertexLocks (Init h s) = vertexLocks s"
  "line_counts (Init h s) = line_counts s"
  by (simp_all add: Init_def Let_def CreateBackBuffers_keeps LoadIni_def UpdateScreenSize_def
      scale_moved_def line_counts_def)

lemma pressing_sizes:
  "viewportWidth (pressing n h) = viewportWidth h"
  "viewportHeight (pressing n h) = viewportHeight h"
  "screenWidth (pressing n h) = screenWidth h"
  "screenHeight (pressing n h) = screenHeight h"
  "DialogEventHandler (pressing n h) = DialogEventHandler h"
  "RDeltaTime (pressing n h) = RDeltaTime h"
  by (simp_all add: pressing_def screenWidth_def screenHeight_def)

lemma wide_host_sizes:
  "viewportWidth (wide_host w) = w"
  "viewportHeight (wide_host w) = 768"
  "screenWidth (wide_host w) = 1024"
  "screenHeight (wide_host w) = 768"
  "DialogEventHandler (wide_host w) = (\<lambda>a. [])"
  by (simp_all add: wide_host_def quiet_host_def screenWidth_def screenHeight_def posnat_value)

lemma quiet_host_sizes:
  "viewportWidth quiet_host = 640"
  "viewportHeight quiet_host = 600"
  "screenWidth quiet_host = 640"
  "screenHeight quiet_host = 600"
  "DialogEventHandler quiet_host = (\<lambda>a. [])"
  by (simp_all add: quiet_host_def screenWidth_def screenHeight_def posnat_value)

lemma quiet_host_scale: "viewport_hScale quiet_host = 1" "viewport_vScale quiet_host = 1"
  by (simp_all add: viewport_hScale_def viewport_vScale_def quiet_host_sizes float32_whole)

lemma wide_host_scale:
  "viewport_hScale (wide_host 1024) = 1"
  "viewport_hScale (wide_host 1025) = 1025 / 1024"
  "viewport_hScale (wide_host 1026) = 1026 / 1024"
  "viewport_vScale (wide_host w) = 1"
proof -
  have a: "float32 (1025 / 1024) = 1025 / 1024"
    by (subst float32_at [where e = 0]) (simp_all add: pow2_def round_to_even_def)
  have b: "float32 (1026 / 1024) = 1026 / 1024"
    by (subst float32_at [where e = 0]) (simp_all add: pow2_def round_to_even_def)
  show "viewport_hScale (wide_host 1024) = 1"
    by (simp add: viewport_hScale_def wide_host_sizes float32_whole)
  show "viewport_hScale (wide_host 1025) = 1025 / 1024"
    using a by (simp add: viewport_hScale_def wide_host_sizes float32_whole)
  show "viewport_hScale (wide_host 1026) = 1026 / 1024"
    using b by (simp add: viewport_hScale_def wide_host_sizes float32_whole)
  show "viewport_vScale (wide_host w) = 1"
    by (simp add: viewport_vScale_def wide_host_sizes float32_whole)
qed

lemma scale_moved_from_0:
  assumes "screenScale_x s = 0" and "viewport_hScale h = 1"
  shows "scale_moved h s"
proof -
  show ?thesis
    using assms by (simp add: scale_moved_def EPSILON_value float32_minus_1)
qed

lemma scale_moved_from_1:
  assumes "screenScale_x s = 1" and "screenScale_y s = 1"
  shows "\<not> scale_moved (wide_host 1024) s"
    and "\<not> scale_moved (wide_host 1025) s"
    and "scale_moved (wide_host 1026) s"
proof -
  have a: "float32 (1 - 1025 / 1024) = - (1 / 1024)"
    by (subst float32_at [where e = "- 10"]) (simp_all add: pow2_def round_to_even_def)
  have b: "float32 (1 - 1026 / 1024) = - (2 / 1024)"
    by (subst float32_at [where e = "- 9"]) (simp_all add: pow2_def round_to_even_def)
  show "\<not> scale_moved (wide_host 1024) s"
    using assms by (simp add: scale_moved_def wide_host_scale float32_0 EPSILON_value)
  show "\<not> scale_moved (wide_host 1025) s"
    using assms a by (simp add: scale_moved_def wide_host_scale float32_0 EPSILON_value)
  show "scale_moved (wide_host 1026) s"
    using assms b by (simp add: scale_moved_def wide_host_scale float32_0 EPSILON_value)
qed

lemma ready_dialog_scale:
  "backNeedsUpdate ready_dialog"
  "screenScale_x ready_dialog = 1"
  "screenScale_y ready_dialog = 1"
proof -
  have m: "scale_moved quiet_host blank_dialog"
    by (rule scale_moved_from_0) (simp_all add: blank_dialog_def quiet_host_scale)
  show "backNeedsUpdate ready_dialog" "screenScale_x ready_dialog = 1"
    "screenScale_y ready_dialog = 1"
    using m by (simp_all add: ready_dialog_def Init_scale quiet_host_scale)
qed

lemma drifting_dialog_scale:
  "screenScale_x drifting_dialog = 1"
  "screenScale_y drifting_dialog = 1"
proof -
  let ?i = "Init (wide_host 1024) blank_dialog"
  have m: "scale_moved (wide_host 1024) blank_dialog"
    by (rule scale_moved_from_0) (simp_all add: blank_dialog_def wide_host_scale)
  have i: "screenScale_x ?i = 1" "screenScale_y ?i = 1"
    using m by (simp_all add: Init_scale wide_host_scale)
  have f: "screenScale_x (Realize (wide_host 1024) ?i) = 1"
    "screenScale_y (Realize (wide_host 1024) ?i) = 1"
    using scale_moved_from_1(1) [OF i] i by (simp_all add: Realize_scale)
  show "screenScale_x drifting_dialog = 1" "screenScale_y drifting_dialog = 1"
    using scale_moved_from_1(2) [OF f] f by (simp_all add: drifting_dialog_def Realize_scale)
qed

text \<open>
  At the epsilon itself the comparison is one of \<^verbatim>\<open>float\<close> values: with a stored scale of 1
  and a viewport of width 1001 on a screen of width 1000 the scale is the \<^verbatim>\<open>float\<close> next to
  1.001, which lies further than \<^verbatim>\<open>1e-3f\<close> from 1, so the scale counts as moved.
\<close>

lemma scale_moved_at_epsilon:
  assumes "screenScale_x s = 1" and "viewportWidth h = 1001" and "screenWidth h = 1000"
  shows "scale_moved h s"
proof -
  have a: "float32 (1001 / 1000) = 8396997 / 8388608"
    by (subst float32_at [where e = 0]) (simp_all add: pow2_def round_to_even_def)
  have b: "float32 (1 - 8396997 / 8388608) = - (8389 / 8388608)"
    by (subst float32_at [where e = "- 10"]) (simp_all add: pow2_def round_to_even_def)
  have v: "viewport_hScale h = 8396997 / 8388608"
    using a assms(2,3) by (simp add: viewport_hScale_def float32_whole)
  show ?thesis
    using assms(1) b by (simp add: scale_moved_def EPSILON_value v)
qed

text \<open>
  Claim C1 as stated (the rebuild runs exactly when the scale or a line count changed since
  the previous frame) fails when the viewport drifts slowly. On a 1024 by 768 screen the
  dialog is initialised and drawn at viewport width 1024, then drawn at width 1025: the
  scale differs from the stored one by 1/1024, which is below the epsilon, so nothing is
  stored and nothing is rebuilt. On the next frame, at width 1026, the scale has changed by
  1/1024 since the previous frame and the line counts have not changed, yet the frame
  rebuilds the mesh, because the scale is compared with the stored scale, 2/1024 away.
\<close>

theorem scale_drift_rebuilds:
  "\<bar>real (viewportWidth (wide_host 1026)) / real (screenWidth (wide_host 1026))
     - real (viewportWidth (wide_host 1025)) / real (screenWidth (wide_host 1025))\<bar> \<le> 1 / 1000
   \<and> real (viewportHeight (wide_host 1026)) / real (screenHeight (wide_host 1026))
     = real (viewportHeight (wide_host 1025)) / real (screenHeight (wide_host 1025))
   \<and> line_counts (Realize (wide_host 1026) drifting_dialog) = line_counts drifting_dialog
   \<and> vertexLocks (Realize (wide_host 1026) drifting_dialog) = vertexLocks drifting_dialog + 1"
proof -
  have q: "\<not> bDoAction (wide_host 1026) \<or> DialogEventHandler (wide_host 1026) = (\<lambda>a. [])"
    by (simp add: wide_host_sizes)
  have m: "scale_moved (wide_host 1026) drifting_dialog"
    by (rule scale_moved_from_1) (rule drifting_dialog_scale)+
  have "vertexLocks (Realize (wide_host 1026) drifting_dialog) = vertexLocks drifting_dialog + 1"
    using m by (intro Realize_rebuilds) simp
  then show ?thesis
    using Realize_line_counts [OF q] by (simp add: wide_host_sizes)
qed

text \<open>
  The initialised dialog is rebuilt on its first frame; frames that only move the selection
  afterwards do not rebuild it.
\<close>

theorem rebuild_gating_witness:
  "backNeedsUpdate ready_dialog
   \<and> vertexLocks (Realize quiet_host ready_dialog) = vertexLocks ready_dialog + 1
   \<and> \<not> backNeedsUpdate (Realize quiet_host ready_dialog)
   \<and> \<not> scale_moved (pressing ''DlgDown'' quiet_host) (Realize quiet_host ready_dialog)
   \<and> \<not> bDoAction (pressing ''DlgDown'' quiet_host)
   \<and> vertexLocks (Realize (pressing ''DlgDown'' quiet_host) (Realize quiet_host ready_dialog))
      = vertexLocks (Realize quiet_host ready_dialog)
   \<and> vertexLocks (run (Realize quiet_host ready_dialog)
        (map Frame [pressing ''DlgDown'' quiet_host, pressing ''DlgUp'' quiet_host]))
      = vertexLocks (Realize quiet_host ready_dialog)"
proof -
  let ?down = "pressing ''DlgDown'' quiet_host"
  let ?up = "pressing ''DlgUp'' quiet_host"
  let ?s = "Realize quiet_host ready_dialog"
  have f: "backNeedsUpdate ready_dialog" by (rule ready_dialog_scale)
  have c: "\<not> backNeedsUpdate ?s" by (rule Realize_clears)
  have "\<not> scale_moved quiet_host ?s" by (rule Realize_settles)
  then have m: "\<not> scale_moved ?down ?s"
    by (simp add: scale_moved_def viewport_hScale_def viewport_vScale_def pressing_sizes)
  have d: "\<not> bDoAction ?down" by (rule pressing_down)
  have hs: "\<forall>h' \<in> set [?down, ?up].
              viewportWidth h' = viewportWidth quiet_host
              \<and> viewportHeight h' = viewportHeight quiet_host
              \<and> screenWidth h' = screenWidth quiet_host
              \<and> screenHeight h' = screenHeight quiet_host
              \<and> (\<not> bDoAction h' \<or> DialogEventHandler h' = (\<lambda>a. []))"
    by (simp add: pressing_sizes pressing_down pressing_up)
  note first = rebuild_gating [of ready_dialog quiet_host one_link_node "[?down, ?up]"]
  note second = rebuild_gating [of ?s ?down one_link_node "[]"]
  have 1: "vertexLocks ?s = vertexLocks ready_dialog + 1"
    using first f by blast
  have 2: "vertexLocks (Realize ?down ?s) = vertexLocks ?s"
    using second c m d by blast
  have 3: "vertexLocks (run ?s (map Frame [?down, ?up])) = vertexLocks ?s"
    using first hs by blast
  show ?thesis
    using f 1 c m d 2 3 by simp
qed

text \<open>
  Claim C5 as stated (replacing the list of links resets the selection to 0) fails:
  \<open>UpdateLinks\<close> never writes \<open>selectedLink\<close>. With the links A, B, C and the selection on C,
  a node with the single link X leaves the selection at 2.
\<close>

theorem replaced_links_keep_selection:
  "links abc_dialog = [''A'', ''B'', ''C''] \<and> selectedLink abc_dialog = 2
   \<and> links (script_assign quiet_host abc_dialog one_link_node) = [''X'']
   \<and> selectedLink (script_assign quiet_host abc_dialog one_link_node) = 2"
  by (simp add: script_assign_keeps)
     (simp add: script_assign_def AttributeChanged_def UpdateLinks_def UpdateDialogText_def
      Let_def one_link_node_def abc_dialog_def blank_dialog_def no_attributes_def quiet_host_def)

text \<open>
  Claim C5, amended. An assignment by the script, which replaces the list of links, leaves
  the selection where it was (only a confirmed choice sets it to 0). When it changes the
  number of wrapped link lines it sets \<open>backNeedsUpdate\<close>, and the next frame, whatever the
  host shows then, rebuilds the mesh.
\<close>

theorem links_replaced:
  "selectedLink (script_assign h s c) = selectedLink s
   \<and> (length (formattedLinks (script_assign h s c)) \<noteq> length (formattedLinks s)
       \<longrightarrow> backNeedsUpdate (script_assign h s c)
           \<and> vertexLocks (Realize h' (script_assign h s c))
              = vertexLocks (script_assign h s c) + 1)"
proof -
  have "backNeedsUpdate (script_assign h s c)"
    if "length (formattedLinks (script_assign h s c)) \<noteq> length (formattedLinks s)"
    using that by (simp add: script_assign_flag line_counts_def)
  then show ?thesis
    using Realize_rebuilds [of "script_assign h s c" h'] by (auto simp add: script_assign_keeps)
qed

text \<open>
  From three link lines to one: the flag is set and the next frame rebuilds.
\<close>

theorem links_replaced_witness:
  "length (formattedLinks abc_dialog) = 3
   \<and> length (formattedLinks (script_assign quiet_host abc_dialog one_link_node)) = 1
   \<and> selectedLink (script_assign quiet_host abc_dialog one_link_node) = selectedLink abc_dialog
   \<and> backNeedsUpdate (script_assign quiet_host abc_dialog one_link_node)
   \<and> vertexLocks (Realize quiet_host (script_assign quiet_host abc_dialog one_link_node))
      = vertexLocks (script_assign quiet_host abc_dialog one_link_node) + 1"
proof -
  have a: "length (formattedLinks abc_dialog) = 3"
    by (simp add: abc_dialog_def)
  have b: "length (formattedLinks (script_assign quiet_host abc_dialog one_link_node)) = 1"
    by (simp add: script_assign_def AttributeChanged_def UpdateLinks_def UpdateDialogText_def
      Let_def one_link_node_def abc_dialog_def blank_dialog_def no_attributes_def quiet_host_def
      one_line_wrap_def)
  show ?thesis
    using links_replaced [of quiet_host abc_dialog one_link_node quiet_host] a b by simp
qed

text \<open>
  Claim C10. When an attribute change arrives while there is no \<open>Text\<close> attribute, the
  stored raw text \<open>dialogText\<close> keeps its value. For the attributes the component handles
  itself (texture, head model, mood, greeting) the wrapped lines stay as they are; for every
  other attribute they are computed anew from the retained text: no lines when it is empty,
  otherwise what the wrapper returns for it with the main font, the current font scale and
  the width limit of the viewport.
\<close>

theorem text_retained:
  assumes "Text (attributes s) = None"
  shows "dialogText (AttributeChanged h n v s) = dialogText s
         \<and> formattedDialogText (AttributeChanged h n v s)
            = (if iEquals h n ''texture'' \<or> iEquals h n ''headModel'' \<or> iEquals h n ''mood''
                  \<or> iEquals h n ''greeting''
               then formattedDialogText s
               else if dialogText s = [] then []
               else AddToStringArrayLimitedByWidth h (dialogText s) (mainFont s) (fontScale s)
                      (text_width_limit h))"
  using assms
  by (simp add: AttributeChanged_def UpdateHeadModel_def UpdateDialogText_def Let_def
      UpdateLinks_keeps)

text \<open>
  A dialog that holds the text Hello, not yet wrapped, on a node without \<open>Text\<close>: a change of
  \<open>Links\<close> keeps the text and wraps it.
\<close>

theorem text_retained_witness:
  "Text (attributes greeted_dialog) = None
   \<and> dialogText greeted_dialog = ''Hello''
   \<and> formattedDialogText greeted_dialog = []
   \<and> dialogText (AttributeChanged quiet_host ''Links'' [] greeted_dialog) = ''Hello''
   \<and> formattedDialogText (AttributeChanged quiet_host ''Links'' [] greeted_dialog) = [''Hello'']"
proof -
  have t: "Text (attributes greeted_dialog) = None"
    by (simp add: greeted_dialog_def blank_dialog_def no_attributes_def)
  have g: "dialogText greeted_dialog = ''Hello''" "formattedDialogText greeted_dialog = []"
    "mainFont greeted_dialog = 0" "fontScale greeted_dialog = 0"
    by (simp_all add: greeted_dialog_def blank_dialog_def)
  have q: "iEquals quiet_host = (\<lambda>a b. a = b)"
    "AddToStringArrayLimitedByWidth quiet_host = one_line_wrap"
    by (simp_all add: quiet_host_def)
  show ?thesis
    using text_retained [OF t, of quiet_host "''Links''" "[]"] t g
    by (simp add: q one_line_wrap_def)
qed

subsection \<open>The unfade ramp\<close>








lemma write_vertices_length: "length (fst (write_vertices b vs)) = length (fst b)"
  by (cases b) (simp add: write_vertices_def)

lemma foldl_write_vertices_length:
  "length (fst (foldl (\<lambda>b i. write_vertices b (f i)) b js)) = length (fst b)"
  by (induction js arbitrary: b) (simp_all add: write_vertices_length)

lemma UpdateBackBuffers_storage:
  "map length (vertexBuffers (UpdateBackBuffers s)) = map length (vertexBuffers s)"
  "(vertexBuffers (UpdateBackBuffers s))[backVertexBuffer s := X]
   = (vertexBuffers s)[backVertexBuffer s := X]"
proof -
  show "map length (vertexBuffers (UpdateBackBuffers s)) = map length (vertexBuffers s)"
    by (cases "backVertexBuffer s < length (vertexBuffers s)")
       (simp_all add: UpdateBackBuffers_def Let_def map_update write_vertices_length
         foldl_write_vertices_length list_update_same_conv list_update_beyond)
  show "(vertexBuffers (UpdateBackBuffers s))[backVertexBuffer s := X]
        = (vertexBuffers s)[backVertexBuffer s := X]"
    by (simp add: UpdateBackBuffers_def Let_def)
qed

lemma Realize_storage:
  "map length (vertexBuffers (Realize h s)) = map length (vertexBuffers s)"
  "(vertexBuffers (Realize h s))[backVertexBuffer s := X] = (vertexBuffers s)[backVertexBuffer s := X]"
  "indexBuffers (Realize h s) = indexBuffers s"
  "backVertexBuffer (Realize h s) = backVertexBuffer s"
  "backIndexBuffer (Realize h s) = backIndexBuffer s"
proof -
  let ?s4 = "ProcessControls h (UpdateScreenSize h (start_greeting h (Unfade h s)))"
  have k: "vertexBuffers ?s4 = vertexBuffers s" "backVertexBuffer ?s4 = backVertexBuffer s"
    "indexBuffers ?s4 = indexBuffers s" "backIndexBuffer ?s4 = backIndexBuffer s"
    by (simp_all add: ProcessControls_keeps UpdateScreenSize_keeps start_greeting_keeps
        Unfade_keeps)
  have r: "Realize h s = stop_greeting h (if backNeedsUpdate ?s4 then UpdateBackBuffers ?s4 else ?s4)"
    by (simp add: Realize_def Let_def)
  show "map length (vertexBuffers (Realize h s)) = map length (vertexBuffers s)"
    using UpdateBackBuffers_storage(1) [of ?s4] by (simp add: r stop_greeting_keeps k)
  show "(vertexBuffers (Realize h s))[backVertexBuffer s := X]
        = (vertexBuffers s)[backVertexBuffer s := X]"
    using UpdateBackBuffers_storage(2) [of ?s4 X] by (simp add: r stop_greeting_keeps k)
  show "indexBuffers (Realize h s) = indexBuffers s"
    by (simp add: r stop_greeting_keeps UpdateBackBuffers_keeps k)
  show "backVertexBuffer (Realize h s) = backVertexBuffer s"
    by (simp add: r stop_greeting_keeps UpdateBackBuffers_keeps k)
  show "backIndexBuffer (Realize h s) = backIndexBuffer s"
    by (simp add: r stop_greeting_keeps UpdateBackBuffers_keeps k)
qed

lemma call_storage:
  "map length (vertexBuffers (call s c)) = map length (vertexBuffers s)"
  "(vertexBuffers (call s c))[backVertexBuffer s := X] = (vertexBuffers s)[backVertexBuffer s := X]"
  "indexBuffers (call s c) = indexBuffers s"
  "backVertexBuffer (call s c) = backVertexBuffer s"
  "backIndexBuffer (call s c) = backIndexBuffer s"
  by (cases c; simp add: Realize_storage script_assign_keeps)+

lemma run_storage:
  "map length (vertexBuffers (run s cs)) = map length (vertexBuffers s)
   \<and> (vertexBuffers (run s cs))[backVertexBuffer s := X] = (vertexBuffers s)[backVertexBuffer s := X]
   \<and> indexBuffers (run s cs) = indexBuffers s
   \<and> backVertexBuffer (run s cs) = backVertexBuffer s
   \<and> backIndexBuffer (run s cs) = backIndexBuffer s"
proof (induction cs arbitrary: s)
  case Nil
  then show ?case by (simp add: run_def)
next
  case (Cons c cs)
  from Cons.IH [of "call s c"] show ?case
    by (simp add: run_def call_storage)
qed

lemma Init_storage:
  "vertexBuffers (Init h s) = vertexBuffers s @ [replicate 68 empty_vertex]"
  "backVertexBuffer (Init h s) = length (vertexBuffers s)"
  "indexBuffers (Init h s) = indexBuffers s @ [FillIndexBuffer (replicate 102 0) 17]"
  "backIndexBuffer (Init h s) = length (indexBuffers s)"
  by (simp_all add: Init_def Let_def CreateBackBuffers_def SPRITE_COUNT_17 UpdateScreenSize_keeps
      LoadIni_def)

lemma write_indices_splice:
  assumes "i + 6 \<le> length pI"
  shows "pI[i := a, i + 1 := b, i + 2 := c, i + 3 := d, i + 4 := e, i + 5 := f]
         = take i pI @ [a, b, c, d, e, f] @ drop (i + 6) pI"
  using assms
  by (auto simp add: list_eq_iff_nth_eq nth_append nth_list_update nth_Cons' min_def)

lemma FillIndexBuffer_closed:
  assumes "6 * m \<le> length pI"
  shows "FillIndexBuffer pI m
         = concat (map (\<lambda>n. map to_uint16 [n * 4 + 0, n * 4 + 2, n * 4 + 1,
                                              n * 4 + 1, n * 4 + 2, n * 4 + 3]) [0..<m])
           @ drop (6 * m) pI"
  using assms
proof (induction m)
  case 0
  then show ?case by (simp add: FillIndexBuffer_def)
next
  case (Suc m)
  let ?pat = "\<lambda>n. map to_uint16 [n * 4 + 0, n * 4 + 2, n * 4 + 1, n * 4 + 1, n * 4 + 2, n * 4 + 3]"
  let ?done = "concat (map ?pat [0..<m])"
  have l: "length ?done = 6 * m"
    by (simp add: length_concat comp_def sum_list_triv)
  have ih: "FillIndexBuffer pI m = ?done @ drop (6 * m) pI"
    using Suc by simp
  have len: "length (FillIndexBuffer pI m) = length pI" by (rule FillIndexBuffer_length)
  have step: "FillIndexBuffer pI (Suc m)
              = (FillIndexBuffer pI m)
                  [m * 6 + 0 := to_uint16 (m * 4 + 0), m * 6 + 1 := to_uint16 (m * 4 + 2),
                   m * 6 + 2 := to_uint16 (m * 4 + 1), m * 6 + 3 := to_uint16 (m * 4 + 1),
                   m * 6 + 4 := to_uint16 (m * 4 + 2), m * 6 + 5 := to_uint16 (m * 4 + 3)]"
    by (simp add: FillIndexBuffer_def)
  have "m * 6 + 6 \<le> length (FillIndexBuffer pI m)"
    using Suc.prems len by simp
  then have "FillIndexBuffer pI (Suc m)
             = take (m * 6) (FillIndexBuffer pI m) @ ?pat m
               @ drop (m * 6 + 6) (FillIndexBuffer pI m)"
    unfolding step using write_indices_splice [of "m * 6" "FillIndexBuffer pI m"] by simp
  also have "take (m * 6) (FillIndexBuffer pI m) = ?done"
    using l by (simp add: ih mult.commute)
  also have "drop (m * 6 + 6) (FillIndexBuffer pI m) = drop (6 * Suc m) pI"
    using l by (simp add: ih mult.commute add.commute)
  finally show ?case by simp
qed

lemma index_pattern:
  "concat (map (\<lambda>n. map to_uint16 [n * 4 + 0, n * 4 + 2, n * 4 + 1,
                                      n * 4 + 1, n * 4 + 2, n * 4 + 3]) [0..<17])
   = concat (map (\<lambda>n. [4 * n + 0, 4 * n + 2, 4 * n + 1, 4 * n + 1, 4 * n + 2, 4 * n + 3])
       [0..<17])"
proof -
  have "map to_uint16 [n * 4 + 0, n * 4 + 2, n * 4 + 1, n * 4 + 1, n * 4 + 2, n * 4 + 3]
        = [4 * n + 0, 4 * n + 2, 4 * n + 1, 4 * n + 1, 4 * n + 2, 4 * n + 3]"
    if "n < 17" for n
    using that by (simp add: to_uint16_def mult.commute)
  then have "map (\<lambda>n. map to_uint16 [n * 4 + 0, n * 4 + 2, n * 4 + 1,
                                       n * 4 + 1, n * 4 + 2, n * 4 + 3]) [0..<17]
             = map (\<lambda>n. [4 * n + 0, 4 * n + 2, 4 * n + 1, 4 * n + 1, 4 * n + 2, 4 * n + 3])
                 [0..<17]"
    by (intro map_cong) simp_all
  then show ?thesis by (rule arg_cong)
qed

lemma Init_indices:
  "indexBuffers (Init h s) ! backIndexBuffer (Init h s)
   = concat (map (\<lambda>n. [4 * n + 0, 4 * n + 2, 4 * n + 1, 4 * n + 1, 4 * n + 2, 4 * n + 3])
       [0..<17])"
proof -
  have "FillIndexBuffer (replicate 102 0) 17
        = concat (map (\<lambda>n. map to_uint16 [n * 4 + 0, n * 4 + 2, n * 4 + 1,
                                             n * 4 + 1, n * 4 + 2, n * 4 + 3]) [0..<17])
          @ drop (6 * 17) (replicate 102 0)"
    by (rule FillIndexBuffer_closed) simp
  also have "drop (6 * 17) (replicate 102 (0 :: nat)) = []" by simp
  finally have f: "FillIndexBuffer (replicate 102 0) 17
        = concat (map (\<lambda>n. [4 * n + 0, 4 * n + 2, 4 * n + 1, 4 * n + 1, 4 * n + 2, 4 * n + 3])
            [0..<17])"
    unfolding index_pattern append_Nil2 .
  have "indexBuffers (Init h s) ! backIndexBuffer (Init h s) = FillIndexBuffer (replicate 102 0) 17"
    by (simp add: Init_storage)
  then show ?thesis unfolding f .
qed

lemma UpdateBackBuffers_whole:
  assumes "backVertexBuffer s < length (vertexBuffers s)"
    and "length (vertexBuffers s ! backVertexBuffer s) = 68"
  shows "vertexBuffers (UpdateBackBuffers s) ! backVertexBuffer s
         = concat (map (createSpriteMesh (screenScale_x s) (screenScale_y s)) (panel_sprites s))"
  using UpdateBackBuffers_buffer [OF assms(1)] assms(2) by simp

lemma Realize_before_rebuild:
  "Realize h s
   = stop_greeting h (if backNeedsUpdate (before_rebuild h s)
                      then UpdateBackBuffers (before_rebuild h s) else before_rebuild h s)"
  by (simp add: Realize_def Let_def before_rebuild_def)

lemma before_rebuild_keeps:
  "vertexBuffers (before_rebuild h s) = vertexBuffers s"
  "backVertexBuffer (before_rebuild h s) = backVertexBuffer s"
  "vertexLocks (before_rebuild h s) = vertexLocks s"
  by (simp_all add: before_rebuild_def ProcessControls_keeps UpdateScreenSize_keeps
      start_greeting_keeps Unfade_keeps)

lemma Realize_vertices:
  assumes "backVertexBuffer s < length (vertexBuffers s)"
    and "length (vertexBuffers s ! backVertexBuffer s) = 68"
  shows "vertexBuffers (Realize h s) ! backVertexBuffer s
         = (if backNeedsUpdate (before_rebuild h s)
            then concat (map (createSpriteMesh (screenScale_x (before_rebuild h s))
                                (screenScale_y (before_rebuild h s)))
                           (panel_sprites (before_rebuild h s)))
            else vertexBuffers s ! backVertexBuffer s)"
proof (cases "backNeedsUpdate (before_rebuild h s)")
  case True
  let ?b = "before_rebuild h s"
  have a: "backVertexBuffer ?b < length (vertexBuffers ?b)"
    "length (vertexBuffers ?b ! backVertexBuffer ?b) = 68"
    using assms by (simp_all add: before_rebuild_keeps)
  have "vertexBuffers (UpdateBackBuffers ?b) ! backVertexBuffer s
        = concat (map (createSpriteMesh (screenScale_x ?b) (screenScale_y ?b)) (panel_sprites ?b))"
    using UpdateBackBuffers_whole [OF a] by (simp add: before_rebuild_keeps)
  then show ?thesis
    using True by (simp add: Realize_before_rebuild stop_greeting_keeps)
next
  case False
  then show ?thesis
    by (simp add: Realize_before_rebuild stop_greeting_keeps before_rebuild_keeps)
qed

text \<open>
  Claim C8. \<open>Init\<close> creates one vertex buffer and one index buffer, of
  \<open>(10 + (DIALOG_MAX_LINES - 1)) * 4\<close> vertices and \<open>(10 + (DIALOG_MAX_LINES - 1)) * 6\<close>
  indices, leaves the buffers that existed before untouched, and writes the index buffer:
  for each of the 17 sprites \<open>n\<close> the six indices \<open>4n\<close>, \<open>4n + 2\<close>, \<open>4n + 1\<close>, \<open>4n + 1\<close>,
  \<open>4n + 2\<close>, \<open>4n + 3\<close>, in this order; it does not lock the vertex buffer. Whatever frames
  and script assignments follow, no buffer is added, the component keeps the same two
  handles, its vertex buffer keeps its size, the buffers that existed before \<open>Init\<close> are
  untouched, and the index buffers hold exactly what they held after \<open>Init\<close>. A rebuild in
  any state reached this way locks the vertex buffer once and overwrites all of it, with
  the four vertices of each of the 17 panel sprites in their order, leaving the number of
  buffers, the other vertex buffers and the index buffers as they were. A frame leaves the
  component's vertex buffer as it was unless \<^verbatim>\<open>backNeedsUpdate_\<close> is set when \<open>Realize\<close>
  tests it, and then the buffer holds the quads of the panel sprites of that state.
\<close>

theorem mesh_storage_fixed:
  "length (vertexBuffers (Init h s)) = length (vertexBuffers s) + 1
   \<and> length (indexBuffers (Init h s)) = length (indexBuffers s) + 1
   \<and> length (vertexBuffers (Init h s) ! backVertexBuffer (Init h s))
      = (10 + (DIALOG_MAX_LINES - 1)) * 4
   \<and> length (indexBuffers (Init h s) ! backIndexBuffer (Init h s))
      = (10 + (DIALOG_MAX_LINES - 1)) * 6
   \<and> length (vertexBuffers (run (Init h s) cs)) = length (vertexBuffers (Init h s))
   \<and> backVertexBuffer (run (Init h s) cs) = backVertexBuffer (Init h s)
   \<and> backIndexBuffer (run (Init h s) cs) = backIndexBuffer (Init h s)
   \<and> length (vertexBuffers (run (Init h s) cs) ! backVertexBuffer (Init h s))
      = (10 + (DIALOG_MAX_LINES - 1)) * 4
   \<and> butlast (vertexBuffers (run (Init h s) cs)) = vertexBuffers s
   \<and> indexBuffers (run (Init h s) cs) = indexBuffers (Init h s)
   \<and> indexBuffers (Init h s) ! backIndexBuffer (Init h s)
      = concat (map (\<lambda>n. [4 * n + 0, 4 * n + 2, 4 * n + 1, 4 * n + 1, 4 * n + 2, 4 * n + 3])
          [0..<10 + (DIALOG_MAX_LINES - 1)])
   \<and> butlast (indexBuffers (Init h s)) = indexBuffers s
   \<and> vertexLocks (Init h s) = vertexLocks s
   \<and> vertexBuffers (UpdateBackBuffers (run (Init h s) cs)) ! backVertexBuffer (Init h s)
      = concat (map (createSpriteMesh (screenScale_x (run (Init h s) cs))
                       (screenScale_y (run (Init h s) cs)))
                  (panel_sprites (run (Init h s) cs)))
   \<and> length (vertexBuffers (UpdateBackBuffers (run (Init h s) cs)))
      = length (vertexBuffers (Init h s))
   \<and> butlast (vertexBuffers (UpdateBackBuffers (run (Init h s) cs))) = vertexBuffers s
   \<and> indexBuffers (UpdateBackBuffers (run (Init h s) cs)) = indexBuffers (Init h s)
   \<and> vertexLocks (UpdateBackBuffers (run (Init h s) cs)) = vertexLocks (run (Init h s) cs) + 1
   \<and> vertexBuffers (Realize h' (run (Init h s) cs)) ! backVertexBuffer (Init h s)
      = (if backNeedsUpdate (before_rebuild h' (run (Init h s) cs))
         then concat (map (createSpriteMesh
                             (screenScale_x (before_rebuild h' (run (Init h s) cs)))
                             (screenScale_y (before_rebuild h' (run (Init h s) cs))))
                        (panel_sprites (before_rebuild h' (run (Init h s) cs))))
         else vertexBuffers (run (Init h s) cs) ! backVertexBuffer (Init h s))"
proof -
  let ?i = "Init h s"
  let ?r = "run ?i cs"
  note r = run_storage [of ?i cs "replicate 68 empty_vertex"]
  have m: "map length (vertexBuffers ?r) = map length (vertexBuffers ?i)"
    using r by blast
  have l: "length (vertexBuffers ?r) = length (vertexBuffers ?i)"
    using m by (rule map_eq_imp_length_eq)
  have n: "length (vertexBuffers ?r ! backVertexBuffer ?i)
           = length (vertexBuffers ?i ! backVertexBuffer ?i)"
  proof -
    have "map length (vertexBuffers ?r) ! backVertexBuffer ?i
          = map length (vertexBuffers ?i) ! backVertexBuffer ?i"
      using m by simp
    then show ?thesis
      using l by (simp add: Init_storage nth_append)
  qed
  have u: "(vertexBuffers ?r)[backVertexBuffer ?i := replicate 68 empty_vertex]
           = (vertexBuffers ?i)[backVertexBuffer ?i := replicate 68 empty_vertex]"
    using r by blast
  have b: "butlast (vertexBuffers ?r) = vertexBuffers s"
  proof -
    have "butlast ((vertexBuffers ?r)[backVertexBuffer ?i := replicate 68 empty_vertex])
          = butlast (vertexBuffers ?r)"
      using l by (simp add: butlast_list_update Init_storage)
    then show ?thesis
      using u by (simp add: Init_storage)
  qed
  have x: "indexBuffers ?r = indexBuffers ?i" "backVertexBuffer ?r = backVertexBuffer ?i"
    "backIndexBuffer ?r = backIndexBuffer ?i"
    using r by blast+
  have i: "length (indexBuffers ?i ! backIndexBuffer ?i) = 102"
    by (simp add: Init_storage FillIndexBuffer_length)
  have v: "length (vertexBuffers ?i ! backVertexBuffer ?i) = 68"
    by (simp add: Init_storage)
  have c: "indexBuffers ?i ! backIndexBuffer ?i
           = concat (map (\<lambda>n. [4 * n + 0, 4 * n + 2, 4 * n + 1, 4 * n + 1, 4 * n + 2, 4 * n + 3])
               [0..<10 + (DIALOG_MAX_LINES - 1)])"
  proof -
    have "10 + (DIALOG_MAX_LINES - 1) = 17" by (simp add: DIALOG_MAX_LINES_def)
    then show ?thesis by (simp only: Init_indices)
  qed
  have bi: "butlast (indexBuffers ?i) = indexBuffers s"
    by (simp add: Init_storage)
  have vl: "vertexLocks ?i = vertexLocks s"
    by (rule Init_scale(4))
  have p: "backVertexBuffer ?r < length (vertexBuffers ?r)"
    "length (vertexBuffers ?r ! backVertexBuffer ?r) = 68"
    using l n v x(2) by (simp_all add: Init_storage)
  have w: "vertexBuffers (UpdateBackBuffers ?r) ! backVertexBuffer ?i
           = concat (map (createSpriteMesh (screenScale_x ?r) (screenScale_y ?r))
                       (panel_sprites ?r))"
    using UpdateBackBuffers_whole [OF p] by (simp only: x(2))
  have ul: "length (vertexBuffers (UpdateBackBuffers ?r)) = length (vertexBuffers ?i)"
    using l by (simp add: UpdateBackBuffers_def Let_def)
  have ub: "butlast (vertexBuffers (UpdateBackBuffers ?r)) = vertexBuffers s"
  proof -
    have "vertexBuffers (UpdateBackBuffers ?r)
          = (vertexBuffers ?r)[backVertexBuffer ?i
               := vertexBuffers (UpdateBackBuffers ?r) ! backVertexBuffer ?i]"
      using p(1) by (simp add: UpdateBackBuffers_def Let_def x(2))
    then have "butlast (vertexBuffers (UpdateBackBuffers ?r))
          = butlast ((vertexBuffers ?r)[backVertexBuffer ?i
               := vertexBuffers (UpdateBackBuffers ?r) ! backVertexBuffer ?i])"
      by (rule arg_cong)
    also have "\<dots> = butlast (vertexBuffers ?r)"
      using l by (simp add: butlast_list_update Init_storage)
    finally show ?thesis using b by simp
  qed
  have ui: "indexBuffers (UpdateBackBuffers ?r) = indexBuffers ?i"
    using x(1) by (simp add: UpdateBackBuffers_keeps)
  have uk: "vertexLocks (UpdateBackBuffers ?r) = vertexLocks ?r + 1"
    by (simp add: UpdateBackBuffers_def Let_def)
  have f: "vertexBuffers (Realize h' ?r) ! backVertexBuffer ?i
      = (if backNeedsUpdate (before_rebuild h' ?r)
         then concat (map (createSpriteMesh
                             (screenScale_x (before_rebuild h' ?r))
                             (screenScale_y (before_rebuild h' ?r)))
                        (panel_sprites (before_rebuild h' ?r)))
         else vertexBuffers ?r ! backVertexBuffer ?i)"
    using Realize_vertices [OF p, of h'] by (simp only: x(2))
  have old: "length (vertexBuffers ?i) = length (vertexBuffers s) + 1"
    "length (indexBuffers ?i) = length (indexBuffers s) + 1"
    "length (vertexBuffers ?i ! backVertexBuffer ?i) = (10 + (DIALOG_MAX_LINES - 1)) * 4"
    "length (indexBuffers ?i ! backIndexBuffer ?i) = (10 + (DIALOG_MAX_LINES - 1)) * 6"
    "length (vertexBuffers ?r ! backVertexBuffer ?i) = (10 + (DIALOG_MAX_LINES - 1)) * 4"
    using n i v by (simp_all add: Init_storage(1,3) DIALOG_MAX_LINES_def)
  show ?thesis
    by (intro conjI old l x b c bi vl w ul ub ui uk f)
qed

subsection \<open>The contents of the mesh\<close>



















end
